theory Spec2Isabelle
  imports Complex_Main "HOL-Library.Multiset"
begin

section \<open>JavaScript numbers\<close>

text \<open>
  A JavaScript \<open>number\<close> is an IEEE 754 double. The numbers the orchestrator computes
  with (version codes, build numbers, delays in milliseconds) are integers, so a number
  is modelled here as an integer that a double can hold, or one of the values
  \<open>Infinity\<close>, \<open>-Infinity\<close> and \<open>NaN\<close>. A double has 53 significant bits: an arithmetic
  result is the exact result rounded to 53 bits, ties to the even neighbour
  (\<open>round53\<close>), and a rounded magnitude of \<open>2^1024\<close> or more is infinite. The sign of a
  zero is not modelled.
\<close>

datatype jsnum = Finite int | PosInfinity | NegInfinity | NaN

text \<open>The number of bits of a natural number.\<close>

fun bitlen :: "nat \<Rightarrow> nat" where
  "bitlen n = (if n = 0 then 0 else Suc (bitlen (n div 2)))"

declare bitlen.simps [simp del]

definition round53 :: "nat \<Rightarrow> nat" where
  "round53 a =
     (let e = bitlen a - 53;
          q = a div 2 ^ e;
          r = a mod 2 ^ e
      in if e = 0 then a
         else if 2 ^ e < 2 * r \<or> (2 * r = 2 ^ e \<and> odd q) then (q + 1) * 2 ^ e
         else q * 2 ^ e)"

definition overflow_threshold :: nat where
  "overflow_threshold = 2 ^ 1024"

text \<open>The double nearest to an integer.\<close>

definition to_double :: "int \<Rightarrow> jsnum" where
  "to_double i =
     (let v = round53 (nat \<bar>i\<bar>)
      in if overflow_threshold \<le> v then (if i < 0 then NegInfinity else PosInfinity)
         else Finite (if i < 0 then - int v else int v))"

text \<open>
  An integer is a double when it is below the overflow threshold and its bits beyond
  the leading 53 are zero.
\<close>

definition representable :: "int \<Rightarrow> bool" where
  "representable i \<longleftrightarrow>
     nat \<bar>i\<bar> < overflow_threshold \<and> 2 ^ (bitlen (nat \<bar>i\<bar>) - 53) dvd nat \<bar>i\<bar>"

text \<open>The operators \<open>+\<close>, \<open>*\<close>, \<open><=\<close>, \<open><\<close> and \<open>===\<close> on numbers.\<close>

fun js_add :: "jsnum \<Rightarrow> jsnum \<Rightarrow> jsnum" where
  "js_add (Finite a) (Finite b) = to_double (a + b)"
| "js_add NaN y = NaN"
| "js_add x NaN = NaN"
| "js_add PosInfinity NegInfinity = NaN"
| "js_add NegInfinity PosInfinity = NaN"
| "js_add PosInfinity y = PosInfinity"
| "js_add NegInfinity y = NegInfinity"
| "js_add x PosInfinity = PosInfinity"
| "js_add x NegInfinity = NegInfinity"

fun js_sign :: "jsnum \<Rightarrow> int" where
  "js_sign (Finite a) = sgn a"
| "js_sign PosInfinity = 1"
| "js_sign NegInfinity = - 1"
| "js_sign NaN = 0"

fun js_times :: "jsnum \<Rightarrow> jsnum \<Rightarrow> jsnum" where
  "js_times (Finite a) (Finite b) = to_double (a * b)"
| "js_times NaN y = NaN"
| "js_times x NaN = NaN"
| "js_times x y =
     (if js_sign x * js_sign y = 0 then NaN
      else if 0 < js_sign x * js_sign y then PosInfinity else NegInfinity)"

fun js_le :: "jsnum \<Rightarrow> jsnum \<Rightarrow> bool" where
  "js_le (Finite a) (Finite b) = (a \<le> b)"
| "js_le NaN y = False"
| "js_le x NaN = False"
| "js_le NegInfinity y = True"
| "js_le x PosInfinity = True"
| "js_le x y = False"

fun js_less :: "jsnum \<Rightarrow> jsnum \<Rightarrow> bool" where
  "js_less (Finite a) (Finite b) = (a < b)"
| "js_less NaN y = False"
| "js_less x NaN = False"
| "js_less PosInfinity y = False"
| "js_less x NegInfinity = False"
| "js_less x y = True"

definition js_eq :: "jsnum \<Rightarrow> jsnum \<Rightarrow> bool" where
  "js_eq x y \<longleftrightarrow> x \<noteq> NaN \<and> x = y"

text \<open>A number is falsy when it is 0 or \<open>NaN\<close>.\<close>

definition truthy_number :: "jsnum \<Rightarrow> bool" where
  "truthy_number x \<longleftrightarrow> x \<noteq> Finite 0 \<and> x \<noteq> NaN"

text \<open>
  \<open>Math.pow(2, n)\<close> for a natural \<open>n\<close>: a power of two is a double up to \<open>2^1023\<close>, and
  \<open>Infinity\<close> beyond.
\<close>

definition Math_pow2 :: "nat \<Rightarrow> jsnum" where
  "Math_pow2 n = to_double (2 ^ n)"

section \<open>Job model (queue/jobs.ts)\<close>

text \<open>
  The release-submission orchestrator is written in TypeScript. Its enums become
  datatypes, its interfaces records, its \<open>Map\<close>s partial functions. A value the
  orchestrator only passes along (\<open>unknown\<close>, \<open>Record<string, unknown>\<close>) is a
  \<open>jsvalue\<close>. Record fields carry a prefix (\<open>jd_\<close> for \<open>JobDefinition\<close>, \<open>pj_\<close> for
  \<open>PublishJob\<close>, ...) because several interfaces of the source share field names.
\<close>

datatype jsvalue =
    JUndefined
  | JBool bool
  | JNumber int
  | JString string
  | JArray "jsvalue list"
  | JObject "(string \<times> jsvalue) list"

datatype JobStatus = QUEUED | RUNNING | WAITING | SUCCEEDED | FAILED | CANCELLED

datatype Platform = IOS | ANDROID | BOTH

datatype JobType =
    IOS_SUBMIT_TESTFLIGHT_INTERNAL
  | IOS_SUBMIT_TESTFLIGHT_EXTERNAL
  | IOS_SUBMIT_APP_STORE
  | IOS_METADATA_UPDATE
  | IOS_BUILD_UPLOAD
  | ANDROID_SUBMIT_INTERNAL
  | ANDROID_SUBMIT_ALPHA
  | ANDROID_SUBMIT_BETA
  | ANDROID_SUBMIT_PRODUCTION
  | ANDROID_METADATA_UPDATE
  | ANDROID_BUILD_UPLOAD
  | ANDROID_ROLLOUT_EXPAND
  | ANDROID_ROLLOUT_HALT
  | ANDROID_ROLLBACK
  | VALIDATE_METADATA
  | NORMALIZE_ASSETS
  | PREFLIGHT_CHECK

text \<open>\<open>JobPriority\<close> is a numeric enum; the queue subtracts its values.\<close>

definition LOW :: int where "LOW = 0"
definition NORMAL :: int where "NORMAL = 1"
definition HIGH :: int where "HIGH = 2"
definition CRITICAL :: int where "CRITICAL = 3"

text \<open>
  \<open>retryCount\<close> and \<open>maxRetries\<close> are counts: \<open>createJob\<close> starts the first at 0 and the
  worker only increments it, so both are natural numbers here.
\<close>

record JobDefinition =
  jd_id :: string
  jd_type :: JobType
  jd_platform :: Platform
  jd_priority :: int
  jd_status :: JobStatus
  jd_data :: jsvalue
  jd_createdAt :: string
  jd_scheduledAt :: "string option"
  jd_startedAt :: "string option"
  jd_completedAt :: "string option"
  jd_retryCount :: nat
  jd_maxRetries :: nat
  jd_dryRun :: bool
  jd_error :: "string option"
  jd_result :: "jsvalue option"

text \<open>The \<open>options\<close> argument of \<open>createJob\<close>; \<open>None\<close> is an absent property.\<close>

record JobOptions =
  opt_priority :: "int option"
  opt_dryRun :: "bool option"
  opt_maxRetries :: "nat option"
  opt_scheduledAt :: "string option"

text \<open>
  \<open>createJob\<close>: the identifier (\<open>uuidv4()\<close>) and the creation time
  (\<open>new Date().toISOString()\<close>) come from the environment and are arguments here.
\<close>

definition createJob ::
  "string \<Rightarrow> string \<Rightarrow> JobType \<Rightarrow> Platform \<Rightarrow> jsvalue \<Rightarrow> JobOptions \<Rightarrow> JobDefinition" where
  "createJob uuid now ty pl dat options =
     \<lparr> jd_id = uuid,
       jd_type = ty,
       jd_platform = pl,
       jd_priority = (case opt_priority options of None \<Rightarrow> NORMAL | Some p \<Rightarrow> p),
       jd_status = QUEUED,
       jd_data = dat,
       jd_createdAt = now,
       jd_scheduledAt = opt_scheduledAt options,
       jd_startedAt = None,
       jd_completedAt = None,
       jd_retryCount = 0,
       jd_maxRetries = (case opt_maxRetries options of None \<Rightarrow> 3 | Some m \<Rightarrow> m),
       jd_dryRun = (case opt_dryRun options of None \<Rightarrow> True | Some d \<Rightarrow> d),
       jd_error = None,
       jd_result = None \<rparr>"

definition shouldRetryJob :: "JobDefinition \<Rightarrow> bool" where
  "shouldRetryJob job \<longleftrightarrow> jd_retryCount job < jd_maxRetries job \<and> jd_status job = FAILED"

text \<open>
  \<open>calculateRetryDelay(retryCount, baseDelay = 1000)\<close>: an omitted second argument is
  \<open>None\<close>. The product \<open>baseDelay * Math.pow(2, retryCount)\<close> is a product of doubles.
\<close>

definition calculateRetryDelay :: "nat \<Rightarrow> jsnum option \<Rightarrow> jsnum" where
  "calculateRetryDelay retryCount baseDelay =
     js_times (case baseDelay of None \<Rightarrow> Finite 1000 | Some b \<Rightarrow> b) (Math_pow2 retryCount)"

record JobResult =
  jr_success :: bool
  jr_data :: "jsvalue option"
  jr_error :: "string option"
  jr_warnings :: "string list"
  jr_duration :: "int option"

definition createJobResult :: "jsvalue \<Rightarrow> string list \<Rightarrow> JobResult" where
  "createJobResult dat warnings =
     \<lparr> jr_success = True, jr_data = Some dat, jr_error = None,
       jr_warnings = warnings, jr_duration = None \<rparr>"

definition createJobErrorResult :: "string \<Rightarrow> string list \<Rightarrow> JobResult" where
  "createJobErrorResult err warnings =
     \<lparr> jr_success = False, jr_data = None, jr_error = Some err,
       jr_warnings = warnings, jr_duration = None \<rparr>"

section \<open>Job queue (queue/worker.ts, class JobQueue)\<close>

text \<open>
  \<open>Array.prototype.sort\<close> with a comparator is a stable sort: \<open>a\<close> stays in front of a
  later \<open>b\<close> unless the comparator is positive on \<open>(a, b)\<close>. The sorted array of a
  consistent comparator is unique, so the engine's algorithm does not matter; the model
  sorts by stable insertion. The queue is generic in its elements: the worker stores
  references to job objects, and reads the priority through the reference.
\<close>

fun insert_sorted :: "('a \<Rightarrow> 'a \<Rightarrow> int) \<Rightarrow> 'a \<Rightarrow> 'a list \<Rightarrow> 'a list" where
  "insert_sorted cmp a [] = [a]"
| "insert_sorted cmp a (b # bs) =
     (if cmp a b > 0 then b # insert_sorted cmp a bs else a # b # bs)"

definition Array_sort :: "('a \<Rightarrow> 'a \<Rightarrow> int) \<Rightarrow> 'a list \<Rightarrow> 'a list" where
  "Array_sort cmp xs = foldr (insert_sorted cmp) xs []"

text \<open>The comparator of \<open>enqueue\<close>: \<open>(a, b) => b.priority - a.priority\<close>.\<close>

definition by_priority :: "('a \<Rightarrow> int) \<Rightarrow> 'a \<Rightarrow> 'a \<Rightarrow> int" where
  "by_priority prio a b = prio b - prio a"

definition enqueue :: "('a \<Rightarrow> int) \<Rightarrow> 'a list \<Rightarrow> 'a \<Rightarrow> 'a list" where
  "enqueue prio queue job = Array_sort (by_priority prio) (queue @ [job])"

text \<open>\<open>dequeue\<close> is \<open>Array.prototype.shift\<close>: \<open>undefined\<close> on the empty array.\<close>

fun dequeue :: "'a list \<Rightarrow> 'a option \<times> 'a list" where
  "dequeue [] = (None, [])"
| "dequeue (job # queue) = (Some job, queue)"

definition queue_length :: "'a list \<Rightarrow> nat" where
  "queue_length queue = length queue"

definition getJobsByType :: "JobDefinition list \<Rightarrow> JobType \<Rightarrow> JobDefinition list" where
  "getJobsByType queue ty = filter (\<lambda>j. jd_type j = ty) queue"

section \<open>Text helpers\<close>

text \<open>
  Numbers printed into messages (\<open>String(n)\<close>, template literals) are integers in
  decimal notation. \<open>Array.prototype.join\<close> puts the separator between the elements.
\<close>

definition digit_char :: "nat \<Rightarrow> char" where
  "digit_char d = char_of (48 + d)"

function String_nat :: "nat \<Rightarrow> string" where
  "String_nat n =
     (if n < 10 then [digit_char n] else String_nat (n div 10) @ [digit_char (n mod 10)])"
  by pat_completeness auto
termination
  by (relation "measure id") auto

declare String_nat.simps [simp del]

definition String_int :: "int \<Rightarrow> string" where
  "String_int i = (if i < 0 then CHR ''-'' # String_nat (nat (- i)) else String_nat (nat i))"

fun join :: "string \<Rightarrow> string list \<Rightarrow> string" where
  "join sep [] = []"
| "join sep [x] = x"
| "join sep (x # y # ys) = x @ sep @ join sep (y # ys)"

definition newline :: string where
  "newline = [CHR 0x0A]"

text \<open>A string is falsy when it is absent or empty.\<close>

definition truthy :: "string option \<Rightarrow> bool" where
  "truthy so \<longleftrightarrow> (case so of None \<Rightarrow> False | Some s \<Rightarrow> s \<noteq> [])"

section \<open>Status reporter (status/reporter.ts)\<close>

datatype ProgressCode =
    JOB_STARTED
  | JOB_COMPLETED
  | JOB_FAILED
  | JOB_CANCELLED
  | IOS_VALIDATION_START
  | IOS_VALIDATION_COMPLETE
  | IOS_UPLOAD_START
  | IOS_UPLOAD_COMPLETE
  | IOS_BUILD_PROCESSING
  | IOS_BUILD_PROCESSED
  | IOS_VERSION_SUBMITTED
  | IOS_REVIEW_PENDING
  | IOS_REVIEW_APPROVED
  | IOS_REVIEW_REJECTED
  | IOS_TESTERS_INVITED
  | ANDROID_VALIDATION_START
  | ANDROID_VALIDATION_COMPLETE
  | ANDROID_UPLOAD_START
  | ANDROID_UPLOAD_COMPLETE
  | ANDROID_EDIT_CREATED
  | ANDROID_TRACK_ASSIGNED
  | ANDROID_RELEASE_NOTES_ADDED
  | ANDROID_EDIT_COMMITTED
  | ANDROID_ROLLOUT_STARTED
  | ANDROID_ROLLOUT_EXPANDED
  | ANDROID_ROLLOUT_HALTED
  | ANDROID_ROLLBACK_COMPLETE
  | ASSET_NORMALIZATION_START
  | ASSET_NORMALIZATION_COMPLETE
  | ASSET_VALIDATION_ERROR
  | METADATA_UPLOAD_START
  | METADATA_UPLOAD_COMPLETE
  | METADATA_VALIDATION_ERROR

datatype LogLevel = DEBUG | INFO | WARN | ERROR

record LogEntry =
  le_timestamp :: string
  le_level :: LogLevel
  le_code :: "string option"
  le_message :: string
  le_data :: "(string \<times> jsvalue) list option"
  le_duration :: "int option"

record JobProgress =
  jp_code :: ProgressCode
  jp_message :: string
  jp_timestamp :: string
  jp_percentage :: "int option"
  jp_data :: "(string \<times> jsvalue) list option"

text \<open>
  The \<open>result\<close> of a \<open>PublishJob\<close>. The worker stores the data object of the job result
  in \<open>url\<close> (\<open>result.data as any\<close>), so the optional fields are \<open>jsvalue\<close>s.
\<close>

record ReportResult =
  rr_success :: bool
  rr_url :: "jsvalue option"
  rr_version :: "jsvalue option"
  rr_errors :: "string list"
  rr_warnings :: "string list"

record PublishJob =
  pj_id :: string
  pj_platform :: Platform
  pj_status :: JobStatus
  pj_createdAt :: string
  pj_startedAt :: "string option"
  pj_completedAt :: "string option"
  pj_dryRun :: bool
  pj_metadata :: "jsvalue option"
  pj_logs :: "LogEntry list"
  pj_progress :: "JobProgress list"
  pj_result :: "ReportResult option"

text \<open>
  The reporter's state is its \<open>jobs\<close> map. The job objects are mutated in place in the
  source; here the updated job is stored back under its key. Every operation that reads
  the clock (\<open>new Date().toISOString()\<close>) takes the time as its first argument \<open>now\<close>.
  Calls to the logging sink are left out: the logger is a separate object and no
  reporter operation reads it.
\<close>

type_synonym reporter = "string \<rightharpoonup> PublishJob"

definition addProgress ::
  "string \<Rightarrow> string \<Rightarrow> ProgressCode \<Rightarrow> string \<Rightarrow> int option
     \<Rightarrow> (string \<times> jsvalue) list option \<Rightarrow> reporter \<Rightarrow> reporter" where
  "addProgress now ident code message percentage dat jobs =
     (case jobs ident of
        None \<Rightarrow> jobs
      | Some job \<Rightarrow>
          jobs(ident \<mapsto> job\<lparr>pj_progress := pj_progress job @
            [\<lparr> jp_code = code, jp_message = message, jp_timestamp = now,
               jp_percentage = percentage, jp_data = dat \<rparr>]\<rparr>))"

definition reporter_createJob ::
  "string \<Rightarrow> string \<Rightarrow> Platform \<Rightarrow> bool \<Rightarrow> jsvalue option \<Rightarrow> reporter \<Rightarrow> reporter" where
  "reporter_createJob now ident platform dryRun metadata jobs =
     addProgress now ident JOB_STARTED (''Job '' @ ident @ '' created and queued'') None None
       (jobs(ident \<mapsto>
          \<lparr> pj_id = ident, pj_platform = platform, pj_status = QUEUED, pj_createdAt = now,
            pj_startedAt = None, pj_completedAt = None, pj_dryRun = dryRun,
            pj_metadata = metadata, pj_logs = [], pj_progress = [], pj_result = None \<rparr>))"

definition getJob :: "reporter \<Rightarrow> string \<Rightarrow> PublishJob option" where
  "getJob jobs ident = jobs ident"

definition updateJobStatus :: "string \<Rightarrow> string \<Rightarrow> JobStatus \<Rightarrow> reporter \<Rightarrow> reporter" where
  "updateJobStatus now ident status jobs =
     (case jobs ident of
        None \<Rightarrow> jobs
      | Some job \<Rightarrow>
          (let job1 = job\<lparr>pj_status := status\<rparr>;
               job2 = (if status = RUNNING \<and> \<not> truthy (pj_startedAt job1)
                       then job1\<lparr>pj_startedAt := Some now\<rparr> else job1);
               job3 = (if status = SUCCEEDED \<or> status = FAILED \<or> status = CANCELLED
                       then job2\<lparr>pj_completedAt := Some now\<rparr> else job2)
           in jobs(ident \<mapsto> job3)))"

definition addLog :: "string \<Rightarrow> LogEntry \<Rightarrow> reporter \<Rightarrow> reporter" where
  "addLog ident entry jobs =
     (case jobs ident of
        None \<Rightarrow> jobs
      | Some job \<Rightarrow> jobs(ident \<mapsto> job\<lparr>pj_logs := pj_logs job @ [entry]\<rparr>))"

definition opt_value :: "jsvalue option \<Rightarrow> jsvalue" where
  "opt_value v = (case v of None \<Rightarrow> JUndefined | Some x \<Rightarrow> x)"

definition setJobResult :: "string \<Rightarrow> string \<Rightarrow> ReportResult \<Rightarrow> reporter \<Rightarrow> reporter" where
  "setJobResult now ident result jobs =
     (case jobs ident of
        None \<Rightarrow> jobs
      | Some job \<Rightarrow>
          (let jobs1 = jobs(ident \<mapsto> job\<lparr>pj_result := Some result\<rparr>)
           in if rr_success result
              then addProgress now ident JOB_COMPLETED ''Job completed successfully'' (Some 100)
                     (Some [(''url'', opt_value (rr_url result)),
                            (''version'', opt_value (rr_version result))])
                     (updateJobStatus now ident SUCCEEDED jobs1)
              else addProgress now ident JOB_FAILED ''Job failed'' None
                     (Some [(''errors'', JArray (map JString (rr_errors result)))])
                     (updateJobStatus now ident FAILED jobs1)))"

definition reporter_cancelJob :: "string \<Rightarrow> string \<Rightarrow> reporter \<Rightarrow> reporter" where
  "reporter_cancelJob now ident jobs =
     (case jobs ident of
        None \<Rightarrow> jobs
      | Some job \<Rightarrow>
          (if pj_status job = RUNNING \<or> pj_status job = WAITING \<or> pj_status job = QUEUED
           then addProgress now ident JOB_CANCELLED ''Job was cancelled'' None None
                  (updateJobStatus now ident CANCELLED jobs)
           else jobs))"

text \<open>\<open>latestProgress.percentage || 0\<close>: an absent percentage counts as 0.\<close>

definition getProgressPercentage :: "reporter \<Rightarrow> string \<Rightarrow> int" where
  "getProgressPercentage jobs ident =
     (case jobs ident of
        None \<Rightarrow> 0
      | Some job \<Rightarrow>
          (if pj_progress job = [] then 0
           else (case jp_percentage (last (pj_progress job)) of None \<Rightarrow> 0 | Some p \<Rightarrow> p)))"

definition getJobLogs :: "reporter \<Rightarrow> string \<Rightarrow> LogEntry list" where
  "getJobLogs jobs ident = (case jobs ident of None \<Rightarrow> [] | Some job \<Rightarrow> pj_logs job)"

definition getJobProgress :: "reporter \<Rightarrow> string \<Rightarrow> JobProgress list" where
  "getJobProgress jobs ident = (case jobs ident of None \<Rightarrow> [] | Some job \<Rightarrow> pj_progress job)"

text \<open>The string values of the enums, as template literals print them.\<close>

fun Platform_value :: "Platform \<Rightarrow> string" where
  "Platform_value IOS = ''ios''"
| "Platform_value ANDROID = ''android''"
| "Platform_value BOTH = ''both''"

fun JobStatus_value :: "JobStatus \<Rightarrow> string" where
  "JobStatus_value QUEUED = ''QUEUED''"
| "JobStatus_value RUNNING = ''RUNNING''"
| "JobStatus_value WAITING = ''WAITING''"
| "JobStatus_value SUCCEEDED = ''SUCCEEDED''"
| "JobStatus_value FAILED = ''FAILED''"
| "JobStatus_value CANCELLED = ''CANCELLED''"

fun LogLevel_value :: "LogLevel \<Rightarrow> string" where
  "LogLevel_value DEBUG = ''DEBUG''"
| "LogLevel_value INFO = ''INFO''"
| "LogLevel_value WARN = ''WARN''"
| "LogLevel_value ERROR = ''ERROR''"

fun ProgressCode_value :: "ProgressCode \<Rightarrow> string" where
  "ProgressCode_value JOB_STARTED = ''JOB_STARTED''"
| "ProgressCode_value JOB_COMPLETED = ''JOB_COMPLETED''"
| "ProgressCode_value JOB_FAILED = ''JOB_FAILED''"
| "ProgressCode_value JOB_CANCELLED = ''JOB_CANCELLED''"
| "ProgressCode_value IOS_VALIDATION_START = ''IOS_VALIDATION_START''"
| "ProgressCode_value IOS_VALIDATION_COMPLETE = ''IOS_VALIDATION_COMPLETE''"
| "ProgressCode_value IOS_UPLOAD_START = ''IOS_UPLOAD_START''"
| "ProgressCode_value IOS_UPLOAD_COMPLETE = ''IOS_UPLOAD_COMPLETE''"
| "ProgressCode_value IOS_BUILD_PROCESSING = ''IOS_BUILD_PROCESSING''"
| "ProgressCode_value IOS_BUILD_PROCESSED = ''IOS_BUILD_PROCESSED''"
| "ProgressCode_value IOS_VERSION_SUBMITTED = ''IOS_VERSION_SUBMITTED''"
| "ProgressCode_value IOS_REVIEW_PENDING = ''IOS_REVIEW_PENDING''"
| "ProgressCode_value IOS_REVIEW_APPROVED = ''IOS_REVIEW_APPROVED''"
| "ProgressCode_value IOS_REVIEW_REJECTED = ''IOS_REVIEW_REJECTED''"
| "ProgressCode_value IOS_TESTERS_INVITED = ''IOS_TESTERS_INVITED''"
| "ProgressCode_value ANDROID_VALIDATION_START = ''ANDROID_VALIDATION_START''"
| "ProgressCode_value ANDROID_VALIDATION_COMPLETE = ''ANDROID_VALIDATION_COMPLETE''"
| "ProgressCode_value ANDROID_UPLOAD_START = ''ANDROID_UPLOAD_START''"
| "ProgressCode_value ANDROID_UPLOAD_COMPLETE = ''ANDROID_UPLOAD_COMPLETE''"
| "ProgressCode_value ANDROID_EDIT_CREATED = ''ANDROID_EDIT_CREATED''"
| "ProgressCode_value ANDROID_TRACK_ASSIGNED = ''ANDROID_TRACK_ASSIGNED''"
| "ProgressCode_value ANDROID_RELEASE_NOTES_ADDED = ''ANDROID_RELEASE_NOTES_ADDED''"
| "ProgressCode_value ANDROID_EDIT_COMMITTED = ''ANDROID_EDIT_COMMITTED''"
| "ProgressCode_value ANDROID_ROLLOUT_STARTED = ''ANDROID_ROLLOUT_STARTED''"
| "ProgressCode_value ANDROID_ROLLOUT_EXPANDED = ''ANDROID_ROLLOUT_EXPANDED''"
| "ProgressCode_value ANDROID_ROLLOUT_HALTED = ''ANDROID_ROLLOUT_HALTED''"
| "ProgressCode_value ANDROID_ROLLBACK_COMPLETE = ''ANDROID_ROLLBACK_COMPLETE''"
| "ProgressCode_value ASSET_NORMALIZATION_START = ''ASSET_NORMALIZATION_START''"
| "ProgressCode_value ASSET_NORMALIZATION_COMPLETE = ''ASSET_NORMALIZATION_COMPLETE''"
| "ProgressCode_value ASSET_VALIDATION_ERROR = ''ASSET_VALIDATION_ERROR''"
| "ProgressCode_value METADATA_UPLOAD_START = ''METADATA_UPLOAD_START''"
| "ProgressCode_value METADATA_UPLOAD_COMPLETE = ''METADATA_UPLOAD_COMPLETE''"
| "ProgressCode_value METADATA_VALIDATION_ERROR = ''METADATA_VALIDATION_ERROR''"

fun JobType_value :: "JobType \<Rightarrow> string" where
  "JobType_value IOS_SUBMIT_TESTFLIGHT_INTERNAL = ''IOS_SUBMIT_TESTFLIGHT_INTERNAL''"
| "JobType_value IOS_SUBMIT_TESTFLIGHT_EXTERNAL = ''IOS_SUBMIT_TESTFLIGHT_EXTERNAL''"
| "JobType_value IOS_SUBMIT_APP_STORE = ''IOS_SUBMIT_APP_STORE''"
| "JobType_value IOS_METADATA_UPDATE = ''IOS_METADATA_UPDATE''"
| "JobType_value IOS_BUILD_UPLOAD = ''IOS_BUILD_UPLOAD''"
| "JobType_value ANDROID_SUBMIT_INTERNAL = ''ANDROID_SUBMIT_INTERNAL''"
| "JobType_value ANDROID_SUBMIT_ALPHA = ''ANDROID_SUBMIT_ALPHA''"
| "JobType_value ANDROID_SUBMIT_BETA = ''ANDROID_SUBMIT_BETA''"
| "JobType_value ANDROID_SUBMIT_PRODUCTION = ''ANDROID_SUBMIT_PRODUCTION''"
| "JobType_value ANDROID_METADATA_UPDATE = ''ANDROID_METADATA_UPDATE''"
| "JobType_value ANDROID_BUILD_UPLOAD = ''ANDROID_BUILD_UPLOAD''"
| "JobType_value ANDROID_ROLLOUT_EXPAND = ''ANDROID_ROLLOUT_EXPAND''"
| "JobType_value ANDROID_ROLLOUT_HALT = ''ANDROID_ROLLOUT_HALT''"
| "JobType_value ANDROID_ROLLBACK = ''ANDROID_ROLLBACK''"
| "JobType_value VALIDATE_METADATA = ''VALIDATE_METADATA''"
| "JobType_value NORMALIZE_ASSETS = ''NORMALIZE_ASSETS''"
| "JobType_value PREFLIGHT_CHECK = ''PREFLIGHT_CHECK''"

text \<open>
  \<open>exportJobLogs\<close>. \<open>toISOString\<close> stands for \<open>new Date(t).toISOString()\<close> on a stored
  timestamp. \<open>filter(Boolean)\<close> drops the empty strings of the header.
\<close>

definition export_progress_line :: "(string \<Rightarrow> string) \<Rightarrow> JobProgress \<Rightarrow> string" where
  "export_progress_line toISOString p =
     ''  '' @ toISOString (jp_timestamp p)
     @ (case jp_percentage p of None \<Rightarrow> [] | Some n \<Rightarrow> '' ['' @ String_int n @ ''%]'')
     @ '' ['' @ ProgressCode_value (jp_code p) @ ''] '' @ jp_message p"

definition export_log_line :: "LogEntry \<Rightarrow> string" where
  "export_log_line l =
     ''  '' @ le_timestamp l @ '' ['' @ LogLevel_value (le_level l) @ ''] '' @ le_message l"

definition exportJobLogs :: "(string \<Rightarrow> string) \<Rightarrow> reporter \<Rightarrow> string \<Rightarrow> string" where
  "exportJobLogs toISOString jobs ident =
     (case jobs ident of
        None \<Rightarrow> []
      | Some job \<Rightarrow>
          (let header = join newline (filter (\<lambda>s. s \<noteq> [])
                 [''Job ID: '' @ pj_id job,
                  ''Platform: '' @ Platform_value (pj_platform job),
                  ''Status: '' @ JobStatus_value (pj_status job),
                  ''Created: '' @ pj_createdAt job,
                  (case pj_startedAt job of
                     None \<Rightarrow> [] | Some t \<Rightarrow> if t \<noteq> [] then ''Started: '' @ t else []),
                  (case pj_completedAt job of
                     None \<Rightarrow> [] | Some t \<Rightarrow> if t \<noteq> [] then ''Completed: '' @ t else []),
                  (if pj_dryRun job then ''Mode: DRY RUN'' else ''Mode: REAL''),
                  [],
                  ''Progress:'']);
               progress = join newline (map (export_progress_line toISOString) (pj_progress job));
               logs = join newline ((newline @ ''Logs:'') # map export_log_line (pj_logs job))
           in join newline [header, progress, logs]))"

record JobSummary =
  js_id :: string
  js_platform :: Platform
  js_status :: JobStatus
  js_createdAt :: string
  js_duration :: "string option"
  js_progressPercentage :: int
  js_latestProgress :: "string option"
  js_errorCount :: nat
  js_warningCount :: nat

text \<open>
  \<open>getJobSummary\<close>. \<open>getTime\<close> stands for \<open>new Date(t).getTime()\<close>, in milliseconds;
  \<open>Math.floor(diff / 1000)\<close> is the floor division of integers.
\<close>

definition getJobSummary :: "(string \<Rightarrow> int) \<Rightarrow> reporter \<Rightarrow> string \<Rightarrow> JobSummary option" where
  "getJobSummary getTime jobs ident =
     (case jobs ident of
        None \<Rightarrow> None
      | Some job \<Rightarrow>
          Some \<lparr> js_id = pj_id job,
                 js_platform = pj_platform job,
                 js_status = pj_status job,
                 js_createdAt = pj_createdAt job,
                 js_duration =
                   (case (pj_startedAt job, pj_completedAt job) of
                      (Some st, Some en) \<Rightarrow>
                        if st \<noteq> [] \<and> en \<noteq> []
                        then Some (String_int ((getTime en - getTime st) div 1000) @ ''s'')
                        else None
                    | _ \<Rightarrow> None),
                 js_progressPercentage = getProgressPercentage jobs ident,
                 js_latestProgress =
                   (if pj_progress job \<noteq> [] then Some (jp_message (last (pj_progress job)))
                    else None),
                 js_errorCount = length (filter (\<lambda>l. le_level l = ERROR) (pj_logs job)),
                 js_warningCount = length (filter (\<lambda>l. le_level l = WARN) (pj_logs job)) \<rparr>)"

section \<open>Metadata validator (metadata/validator.ts)\<close>

datatype Severity = Sev_error | Sev_warning

record ValidationIssue =
  vi_field :: string
  vi_message :: string
  vi_severity :: Severity

record ValidationWarning =
  vw_field :: string
  vw_message :: string

record ValidationResult =
  vr_valid :: bool
  vr_errors :: "ValidationIssue list"
  vr_warnings :: "ValidationWarning list"

record VersionValidationResult = ValidationResult +
  vr_lastVersion :: "string option"
  vr_lastBuildNumber :: "string option"
  vr_suggestedBuildNumber :: "string option"

record AndroidVersionValidationResult = ValidationResult +
  vr_lastVersionCode :: "jsnum option"
  vr_suggestedVersionCode :: "jsnum option"

text \<open>
  The part of a \<open>StoreMetadata\<close> document the validator reads. A string property the
  validator tests for presence is optional here (\<open>None\<close> is a missing property); the
  \<open>userFraction\<close> is a real number.
\<close>

record ExportCompliance =
  ec_usesEncryption :: bool
  ec_isExempt :: bool

record ReviewInformation =
  ri_contactEmail :: "string option"

record AppInformation =
  ai_description :: "string option"
  ai_privacyPolicyUrl :: "string option"

record IOSScreenshots =
  sc_iphone67 :: "string list"

record IOSMetadata =
  ios_bundleId :: string
  ios_version :: string
  ios_buildNumber :: string
  ios_exportCompliance :: ExportCompliance
  ios_reviewInformation :: ReviewInformation
  ios_appInformation :: AppInformation
  ios_screenshots :: IOSScreenshots

record AndroidListing =
  al_title :: "string option"
  al_shortDescription :: "string option"
  al_privacyPolicyUrl :: "string option"

record DataSafety =
  ds_collectedData :: "jsvalue list option"

record AndroidMetadata =
  and_packageName :: string
  and_versionCode :: jsnum
  and_track :: string
  and_userFraction :: "real option"
  and_listing :: AndroidListing
  and_dataSafety :: "DataSafety option"

record StoreMetadata =
  sm_ios :: IOSMetadata
  sm_android :: AndroidMetadata

text \<open>
  \<open>validateStoreMetadata\<close> runs \<open>storeSchema.parse\<close> of the zod library. Its outcome is an
  argument: \<open>None\<close> when the document parses, \<open>Some issues\<close> when zod throws, each issue
  a path and a message.
\<close>

type_synonym zod_outcome = "(string list \<times> string) list option"

definition validateStoreMetadata :: "zod_outcome \<Rightarrow> ValidationResult" where
  "validateStoreMetadata parsed =
     (case parsed of
        None \<Rightarrow> \<lparr> vr_valid = True, vr_errors = [], vr_warnings = [] \<rparr>
      | Some issues \<Rightarrow>
          \<lparr> vr_valid = False,
            vr_errors = map (\<lambda>(path, msg).
              \<lparr> vi_field = join ''.'' path, vi_message = msg, vi_severity = Sev_error \<rparr>) issues,
            vr_warnings = [] \<rparr>)"

text \<open>
  \<open>parseInt(s, 10)\<close>: leading white space is skipped, one sign is read, then the longest
  run of decimal digits. \<open>parseInt_exact\<close> is the integer these characters denote, and
  \<open>parseInt\<close> the double nearest to it; no digit gives \<open>NaN\<close>.
\<close>

definition is_space :: "char \<Rightarrow> bool" where
  "is_space c \<longleftrightarrow> c \<in> set [CHR '' '', CHR 0x09, CHR 0x0A, CHR 0x0B, CHR 0x0C, CHR 0x0D]"

definition is_digit :: "char \<Rightarrow> bool" where
  "is_digit c \<longleftrightarrow> 48 \<le> (of_char c :: nat) \<and> (of_char c :: nat) \<le> 57"

definition digits_value :: "string \<Rightarrow> nat" where
  "digits_value z = foldl (\<lambda>a c. 10 * a + (of_char c - 48)) 0 z"

definition parseInt_exact :: "string \<Rightarrow> int option" where
  "parseInt_exact s =
     (let s1 = dropWhile is_space s;
          neg = (case s1 of [] \<Rightarrow> False | c # _ \<Rightarrow> c = CHR ''-'');
          s2 = (case s1 of [] \<Rightarrow> []
                | c # r \<Rightarrow> if c = CHR ''-'' \<or> c = CHR ''+'' then r else s1);
          z = takeWhile is_digit s2
      in if z = [] then None
         else Some ((if neg then - 1 else 1) * int (digits_value z)))"

definition parseInt :: "string \<Rightarrow> jsnum" where
  "parseInt s = (case parseInt_exact s of None \<Rightarrow> NaN | Some i \<Rightarrow> to_double i)"

text \<open>\<open>s.split('.')\<close>: the pieces between the dots; one empty piece for the empty string.\<close>

fun split_dot :: "string \<Rightarrow> string list" where
  "split_dot [] = [[]]"
| "split_dot (c # cs) =
     (if c = CHR ''.'' then [] # split_dot cs
      else (case split_dot cs of [] \<Rightarrow> [[c]] | w # ws \<Rightarrow> (c # w) # ws))"

text \<open>
  The components \<open>[major, minor]\<close> of \<open>version.split('.').map(Number)\<close>. \<open>toNumber\<close>
  stands for \<open>Number\<close> on one piece; a piece that is not there is \<open>undefined\<close> and
  compares like \<open>NaN\<close>.
\<close>

definition component :: "(string \<Rightarrow> jsnum) \<Rightarrow> string \<Rightarrow> nat \<Rightarrow> jsnum" where
  "component toNumber version k =
     (let pieces = split_dot version
      in if k < length pieces then toNumber (pieces ! k) else NaN)"

text \<open>
  \<open>String(n)\<close> and a template literal print an integer of magnitude up to \<open>2^53\<close> in
  decimal notation. Beyond that JavaScript prints the shortest decimal that reads back
  as the same double; \<open>printLarge\<close> stands for that text.
\<close>

definition String_number :: "(int \<Rightarrow> string) \<Rightarrow> jsnum \<Rightarrow> string" where
  "String_number printLarge n =
     (case n of
        Finite i \<Rightarrow> if \<bar>i\<bar> \<le> 2 ^ 53 then String_int i else printLarge i
      | PosInfinity \<Rightarrow> ''Infinity''
      | NegInfinity \<Rightarrow> ''-Infinity''
      | NaN \<Rightarrow> ''NaN'')"

text \<open>A template literal prints \<open>null\<close> for an absent string.\<close>

definition show_nullable :: "string option \<Rightarrow> string" where
  "show_nullable so = (case so of None \<Rightarrow> ''null'' | Some s \<Rightarrow> s)"

text \<open>
  The remote lookups of the store clients are the environment of the version checks:
  \<open>Inl msg\<close> is a call that throws \<open>Error(msg)\<close>, \<open>Inr None\<close> is the answer \<open>null\<close>.
  \<open>redactSecrets\<close> is an argument as well.
\<close>

record AscLookup =
  asc_lastVersion :: "string + string option"
  asc_lastBuildNumber :: "string + string option"

definition ios_lookup_failed :: "(string \<Rightarrow> string) \<Rightarrow> bool \<Rightarrow> string \<Rightarrow> VersionValidationResult" where
  "ios_lookup_failed redactSecrets dryRun msg =
     (if dryRun
      then \<lparr> vr_valid = True, vr_errors = [],
             vr_warnings = [\<lparr> vw_field = ''ios'',
               vw_message = ''Dry run: Skipping App Store Connect version check - ''
                 @ redactSecrets msg \<rparr>],
             vr_lastVersion = None, vr_lastBuildNumber = None, vr_suggestedBuildNumber = None \<rparr>
      else \<lparr> vr_valid = False,
             vr_errors = [\<lparr> vi_field = ''ios'',
               vi_message = ''Failed to validate iOS versioning: '' @ redactSecrets msg,
               vi_severity = Sev_error \<rparr>],
             vr_warnings = [],
             vr_lastVersion = None, vr_lastBuildNumber = None, vr_suggestedBuildNumber = None \<rparr>)"

definition validateIOSVersioning ::
  "(string \<Rightarrow> string) \<Rightarrow> (string \<Rightarrow> jsnum) \<Rightarrow> (int \<Rightarrow> string) \<Rightarrow> AscLookup
     \<Rightarrow> string \<Rightarrow> string \<Rightarrow> string \<Rightarrow> bool \<Rightarrow> VersionValidationResult" where
  "validateIOSVersioning redactSecrets toNumber printLarge asc bundleId version buildNumber dryRun =
     (case asc_lastVersion asc of
        Inl msg \<Rightarrow> ios_lookup_failed redactSecrets dryRun msg
      | Inr lastVersion \<Rightarrow>
     (case asc_lastBuildNumber asc of
        Inl msg \<Rightarrow> ios_lookup_failed redactSecrets dryRun msg
      | Inr lastBuildNumber \<Rightarrow>
          (let result0 = \<lparr> vr_valid = True, vr_errors = [], vr_warnings = [],
                 vr_lastVersion = None, vr_lastBuildNumber = None,
                 vr_suggestedBuildNumber = None \<rparr>;
               currentBuildNum = parseInt buildNumber;
               lastBuildNum = parseInt (if truthy lastBuildNumber
                                        then show_nullable lastBuildNumber else ''0'');
               result1 =
                 (if truthy lastVersion \<and> Some version = lastVersion
                     \<and> js_le currentBuildNum lastBuildNum
                  then result0\<lparr> vr_valid := False,
                         vr_errors := vr_errors result0 @
                           [\<lparr> vi_field = ''ios.buildNumber'',
                              vi_message = ''Build number must increase. Last build number was ''
                                @ show_nullable lastBuildNumber @ '', new is ''
                                @ String_number printLarge currentBuildNum,
                              vi_severity = Sev_error \<rparr>],
                         vr_suggestedBuildNumber :=
                           Some (String_number printLarge (js_add lastBuildNum (Finite 1))) \<rparr>
                  else result0);
               result2 =
                 (if truthy lastVersion
                     \<and> (js_less (component toNumber version 0)
                                 (component toNumber (show_nullable lastVersion) 0)
                          \<or> (js_eq (component toNumber version 0)
                                    (component toNumber (show_nullable lastVersion) 0)
                              \<and> js_less (component toNumber version 1)
                                         (component toNumber (show_nullable lastVersion) 1)))
                  then result1\<lparr> vr_errors := vr_errors result1 @
                           [\<lparr> vi_field = ''ios.version'',
                              vi_message = ''Version number should not decrease. Last version was ''
                                @ show_nullable lastVersion @ '', new is '' @ version,
                              vi_severity = Sev_warning \<rparr>] \<rparr>
                  else result1)
           in result2\<lparr> vr_lastVersion := lastVersion,
                       vr_lastBuildNumber := lastBuildNumber \<rparr>)))"

definition android_lookup_failed ::
  "(string \<Rightarrow> string) \<Rightarrow> bool \<Rightarrow> string \<Rightarrow> AndroidVersionValidationResult" where
  "android_lookup_failed redactSecrets dryRun msg =
     (if dryRun
      then \<lparr> vr_valid = True, vr_errors = [],
             vr_warnings = [\<lparr> vw_field = ''android'',
               vw_message = ''Dry run: Skipping Google Play version check - ''
                 @ redactSecrets msg \<rparr>],
             vr_lastVersionCode = None, vr_suggestedVersionCode = None \<rparr>
      else \<lparr> vr_valid = False,
             vr_errors = [\<lparr> vi_field = ''android'',
               vi_message = ''Failed to validate Android versioning: '' @ redactSecrets msg,
               vi_severity = Sev_error \<rparr>],
             vr_warnings = [],
             vr_lastVersionCode = None, vr_suggestedVersionCode = None \<rparr>)"

text \<open>
  \<open>validateAndroidVersioning\<close>. The guard \<open>lastVersionCode && ...\<close> is false for \<open>null\<close>
  and for a falsy number.
\<close>

definition validateAndroidVersioning ::
  "(string \<Rightarrow> string) \<Rightarrow> (int \<Rightarrow> string) \<Rightarrow> (string + jsnum option) \<Rightarrow> string \<Rightarrow> jsnum \<Rightarrow> bool
     \<Rightarrow> AndroidVersionValidationResult" where
  "validateAndroidVersioning redactSecrets printLarge lookup packageName versionCode dryRun =
     (case lookup of
        Inl msg \<Rightarrow> android_lookup_failed redactSecrets dryRun msg
      | Inr lastVersionCode \<Rightarrow>
          (let result0 = \<lparr> vr_valid = True, vr_errors = [], vr_warnings = [],
                 vr_lastVersionCode = None, vr_suggestedVersionCode = None \<rparr>;
               result1 =
                 (case lastVersionCode of
                    None \<Rightarrow> result0
                  | Some l \<Rightarrow>
                      if truthy_number l \<and> js_le versionCode l
                      then result0\<lparr> vr_valid := False,
                             vr_errors := vr_errors result0 @
                               [\<lparr> vi_field = ''android.versionCode'',
                                  vi_message =
                                    ''Version code must be strictly increasing. Last version code was ''
                                    @ String_number printLarge l @ '', new is ''
                                    @ String_number printLarge versionCode,
                                  vi_severity = Sev_error \<rparr>],
                             vr_suggestedVersionCode := Some (js_add l (Finite 1)) \<rparr>
                      else result0)
           in result1\<lparr> vr_lastVersionCode := lastVersionCode \<rparr>))"

text \<open>
  The store clients the validator asks (\<open>adapters/ios-direct.ts\<close>,
  \<open>adapters/android-direct.ts\<close>). Their answers depend on the process environment:
  whether \<open>isDryRun()\<close> holds (\<open>PUBLISH_DRY_RUN\<close>, on by default) and whether the
  credentials were found when the client was constructed. In a dry run the clients
  answer with simulated values; otherwise they throw without credentials and answer
  \<open>null\<close> with them.
\<close>

record ClientEnv =
  ce_dryRun :: bool
  ce_ascCredentials :: bool
  ce_playCredentials :: bool

definition AppStoreConnectClient_getLastVersion :: "ClientEnv \<Rightarrow> string \<Rightarrow> string + string option" where
  "AppStoreConnectClient_getLastVersion ce bundleId =
     (if ce_dryRun ce then Inr (Some ''1.0.0'')
      else if \<not> ce_ascCredentials ce then Inl ''App Store Connect credentials not configured''
      else Inr None)"

definition AppStoreConnectClient_getLastBuildNumber :: "ClientEnv \<Rightarrow> string \<Rightarrow> string + string option" where
  "AppStoreConnectClient_getLastBuildNumber ce bundleId =
     (if ce_dryRun ce then Inr (Some ''1'')
      else if \<not> ce_ascCredentials ce then Inl ''App Store Connect credentials not configured''
      else Inr None)"

definition PlayDeveloperClient_getLastVersionCode :: "ClientEnv \<Rightarrow> string \<Rightarrow> string + jsnum option" where
  "PlayDeveloperClient_getLastVersionCode ce packageName =
     (if ce_dryRun ce then Inr (Some (Finite 1))
      else if \<not> ce_playCredentials ce then Inl ''Google Play credentials not configured''
      else Inr None)"

text \<open>The two lookups \<open>validateIOSVersioning\<close> awaits, for a bundle identifier.\<close>

definition asc_lookup :: "ClientEnv \<Rightarrow> string \<Rightarrow> AscLookup" where
  "asc_lookup ce bundleId =
     \<lparr> asc_lastVersion = AppStoreConnectClient_getLastVersion ce bundleId,
       asc_lastBuildNumber = AppStoreConnectClient_getLastBuildNumber ce bundleId \<rparr>"

text \<open>
  \<open>validateMetadataCompleteness\<close> pushes its findings one after the other; \<open>push_if\<close>
  is one such conditional \<open>push\<close>.
\<close>

definition issue :: "string \<Rightarrow> string \<Rightarrow> ValidationIssue" where
  "issue field message = \<lparr> vi_field = field, vi_message = message, vi_severity = Sev_error \<rparr>"

definition push_if :: "bool \<Rightarrow> 'a \<Rightarrow> 'a list \<Rightarrow> 'a list" where
  "push_if c x xs = (if c then xs @ [x] else xs)"

definition str_length :: "string option \<Rightarrow> nat" where
  "str_length so = (case so of None \<Rightarrow> 0 | Some s \<Rightarrow> length s)"

definition validateMetadataCompleteness :: "StoreMetadata \<Rightarrow> ValidationResult" where
  "validateMetadataCompleteness metadata =
     (let ios = sm_ios metadata;
          android = sm_android metadata;
          e1 = push_if (\<not> truthy (ri_contactEmail (ios_reviewInformation ios)))
                 (issue ''ios.reviewInformation.contactEmail'' ''Review contact email is required'')
                 [];
          e2 = push_if (\<not> truthy (ai_description (ios_appInformation ios))
                        \<or> str_length (ai_description (ios_appInformation ios)) < 10)
                 (issue ''ios.appInformation.description''
                    ''App description must be at least 10 characters'')
                 e1;
          e3 = push_if (\<not> truthy (ai_privacyPolicyUrl (ios_appInformation ios)))
                 (issue ''ios.appInformation.privacyPolicyUrl'' ''Privacy policy URL is required'')
                 e2;
          e4 = push_if (length (sc_iphone67 (ios_screenshots ios)) < 3)
                 (issue ''ios.screenshots.iphone67''
                    (''At least 3 iPhone 6.7'' @ [CHR 0x22] @ '' screenshots are required''))
                 e3;
          e5 = push_if (\<not> truthy (al_title (and_listing android))
                        \<or> str_length (al_title (and_listing android)) > 30)
                 (issue ''android.listing.title''
                    ''Title is required and must be 30 characters or less'')
                 e4;
          w1 = push_if (\<not> truthy (al_shortDescription (and_listing android))
                        \<or> str_length (al_shortDescription (and_listing android)) \<noteq> 80)
                 \<lparr> vw_field = ''android.listing.shortDescription'',
                   vw_message =
                     ''Short description should be exactly 80 characters for optimal display'' \<rparr>
                 [];
          e6 = push_if (\<not> truthy (al_privacyPolicyUrl (and_listing android)))
                 (issue ''android.listing.privacyPolicyUrl'' ''Privacy policy URL is required'')
                 e5;
          e7 = push_if (case and_dataSafety android of
                          None \<Rightarrow> True
                        | Some ds \<Rightarrow>
                            (case ds_collectedData ds of None \<Rightarrow> True | Some cd \<Rightarrow> cd = []))
                 (issue ''android.dataSafety'' ''Data safety information is required'')
                 e6
      in \<lparr> vr_valid = True, vr_errors = e7, vr_warnings = w1 \<rparr>)"

definition validateExportCompliance :: "bool \<Rightarrow> bool \<Rightarrow> ValidationResult" where
  "validateExportCompliance usesEncryption isExempt =
     \<lparr> vr_valid = True,
       vr_errors = [],
       vr_warnings = push_if (usesEncryption \<and> \<not> isExempt)
         \<lparr> vw_field = ''ios.exportCompliance'',
           vw_message = ''App uses encryption and is not exempt. This may require additional documentation and review time.'' \<rparr>
         [] \<rparr>"

text \<open>
  \<open>validateStagedRollout\<close>. The fraction is a real number; the comparisons with 0 and 1
  are those of the source. (\<open>NaN\<close>, which fails every comparison, is not a real number.)
\<close>

definition validateStagedRollout :: "string \<Rightarrow> real \<Rightarrow> ValidationResult" where
  "validateStagedRollout track userFraction =
     \<lparr> vr_valid = True,
       vr_errors = push_if (track = ''production'' \<and> (userFraction \<le> 0 \<or> userFraction > 1))
         (issue ''android.userFraction''
            ''User fraction must be between 0 and 1 for production staged rollout'')
         [],
       vr_warnings = push_if (track \<noteq> ''production'' \<and> userFraction > 0)
         \<lparr> vw_field = ''android.userFraction'',
           vw_message = ''Staged rollout is only available for production track'' \<rparr>
         [] \<rparr>"

text \<open>
  \<open>runPreflightValidations\<close>. The environment holds what the function obtains from
  outside: the outcome of the schema parse of the document, the two store lookups, and
  the helpers \<open>redactSecrets\<close>, \<open>Number\<close> and the printing of large numbers.
\<close>

record PreflightEnv =
  env_parsed :: zod_outcome
  env_asc :: AscLookup
  env_play :: "string + jsnum option"
  env_redactSecrets :: "string \<Rightarrow> string"
  env_toNumber :: "string \<Rightarrow> jsnum"
  env_printLarge :: "int \<Rightarrow> string"

record PreflightResults =
  res_schema :: ValidationResult
  res_completeness :: ValidationResult
  res_iosVersion :: VersionValidationResult
  res_androidVersion :: AndroidVersionValidationResult
  res_exportCompliance :: ValidationResult
  res_stagedRollout :: ValidationResult

record PreflightReport =
  pf_valid :: bool
  pf_results :: PreflightResults

definition runPreflightValidations :: "PreflightEnv \<Rightarrow> StoreMetadata \<Rightarrow> bool \<Rightarrow> PreflightReport" where
  "runPreflightValidations env metadata dryRun =
     (let schema = validateStoreMetadata (env_parsed env);
          completeness = validateMetadataCompleteness metadata;
          iosVersion = validateIOSVersioning (env_redactSecrets env) (env_toNumber env)
                         (env_printLarge env) (env_asc env)
                         (ios_bundleId (sm_ios metadata))
                         (ios_version (sm_ios metadata))
                         (ios_buildNumber (sm_ios metadata))
                         dryRun;
          androidVersion = validateAndroidVersioning (env_redactSecrets env)
                             (env_printLarge env) (env_play env)
                             (and_packageName (sm_android metadata))
                             (and_versionCode (sm_android metadata))
                             dryRun;
          exportCompliance = validateExportCompliance
                               (ec_usesEncryption (ios_exportCompliance (sm_ios metadata)))
                               (ec_isExempt (ios_exportCompliance (sm_ios metadata)));
          stagedRollout = validateStagedRollout
                            (and_track (sm_android metadata))
                            (case and_userFraction (sm_android metadata) of
                               None \<Rightarrow> 0 | Some f \<Rightarrow> f);
          allValid = (vr_valid schema \<and> vr_valid completeness \<and> vr_valid iosVersion
                      \<and> vr_valid androidVersion \<and> vr_valid exportCompliance
                      \<and> vr_valid stagedRollout)
      in \<lparr> pf_valid = allValid,
           pf_results = \<lparr> res_schema = schema,
                          res_completeness = completeness,
                          res_iosVersion = iosVersion,
                          res_androidVersion = androidVersion,
                          res_exportCompliance = exportCompliance,
                          res_stagedRollout = stagedRollout \<rparr> \<rparr>)"

section \<open>Job worker (queue/worker.ts, class JobWorker)\<close>

text \<open>
  Job objects are shared: the caller, the queue, a suspended \<open>processJob\<close> and a retry
  timer all hold the same object, and the worker mutates it in place. The model keeps the
  objects in a store \<open>ws_heap\<close> and the queue holds references. An \<open>AbortController\<close> is
  a reference into \<open>ws_controllers\<close>, the list of \<open>aborted\<close> flags. A JavaScript \<open>Map\<close>
  with string keys that the worker iterates is an association list in insertion order.
\<close>

fun Map_set :: "(string \<times> 'v) list \<Rightarrow> string \<Rightarrow> 'v \<Rightarrow> (string \<times> 'v) list" where
  "Map_set [] k v = [(k, v)]"
| "Map_set ((k', v') # m) k v =
     (if k' = k then (k, v) # m else (k', v') # Map_set m k v)"

definition Map_get :: "(string \<times> 'v) list \<Rightarrow> string \<Rightarrow> 'v option" where
  "Map_get m k = map_of m k"

definition Map_delete :: "(string \<times> 'v) list \<Rightarrow> string \<Rightarrow> (string \<times> 'v) list" where
  "Map_delete m k = filter (\<lambda>kv. fst kv \<noteq> k) m"

text \<open>
  The awaited call of \<open>processJob\<close> (\<open>processIOSSubmit\<close>, \<open>processAndroidSubmit\<close>, ...)
  runs the store adapters; the worker sees only how it settles.
\<close>

datatype outcome = Returned JobResult | Threw string

record worker_state =
  ws_heap :: "nat \<rightharpoonup> JobDefinition"
  ws_next :: nat
  ws_queue :: "nat list"
  ws_jobCounters :: "JobType \<rightharpoonup> nat"
  ws_activeJobs :: "(string \<times> nat) list"
  ws_controllers :: "bool list"
  ws_processing :: bool
  ws_intervalId :: bool
  ws_timers :: "(jsnum \<times> nat) list"
  ws_suspended :: "(nat \<times> nat) list"
  ws_reporter :: reporter

definition worker_init :: worker_state where
  "worker_init =
     \<lparr> ws_heap = Map.empty, ws_next = 0, ws_queue = [], ws_jobCounters = Map.empty,
       ws_activeJobs = [], ws_controllers = [], ws_processing = False,
       ws_intervalId = False, ws_timers = [], ws_suspended = [],
       ws_reporter = Map.empty \<rparr>"

definition priority_of :: "(nat \<rightharpoonup> JobDefinition) \<Rightarrow> nat \<Rightarrow> int" where
  "priority_of heap r = (case heap r of None \<Rightarrow> 0 | Some job \<Rightarrow> jd_priority job)"

definition getJobCounter :: "(JobType \<rightharpoonup> nat) \<Rightarrow> JobType \<Rightarrow> nat" where
  "getJobCounter counters ty = (case counters ty of None \<Rightarrow> 0 | Some n \<Rightarrow> n)"

definition incrementJobCounter :: "(JobType \<rightharpoonup> nat) \<Rightarrow> JobType \<Rightarrow> (JobType \<rightharpoonup> nat)" where
  "incrementJobCounter counters ty = counters(ty \<mapsto> getJobCounter counters ty + 1)"

definition abort :: "nat \<Rightarrow> worker_state \<Rightarrow> worker_state" where
  "abort c s = s\<lparr>ws_controllers := (ws_controllers s)[c := True]\<rparr>"

definition aborted :: "nat \<Rightarrow> worker_state \<Rightarrow> bool" where
  "aborted c s \<longleftrightarrow> c < length (ws_controllers s) \<and> ws_controllers s ! c"

definition set_job :: "nat \<Rightarrow> JobDefinition \<Rightarrow> worker_state \<Rightarrow> worker_state" where
  "set_job r job s = s\<lparr>ws_heap := (ws_heap s)(r \<mapsto> job)\<rparr>"

text \<open>\<open>start\<close>: the interval timer then calls \<open>processNextJob\<close> at every tick.\<close>

definition worker_start :: "worker_state \<Rightarrow> worker_state" where
  "worker_start s =
     (if ws_processing s then s else s\<lparr>ws_processing := True, ws_intervalId := True\<rparr>)"

definition worker_stop :: "string \<Rightarrow> worker_state \<Rightarrow> worker_state" where
  "worker_stop now s =
     (let s1 = s\<lparr>ws_processing := False, ws_intervalId := False\<rparr>;
          s2 = foldl (\<lambda>st kv. (abort (snd kv) st)
                        \<lparr>ws_reporter := reporter_cancelJob now (fst kv) (ws_reporter st)\<rparr>)
                 s1 (ws_activeJobs s1)
      in s2\<lparr>ws_activeJobs := []\<rparr>)"

text \<open>\<open>submitJob(job)\<close>, for the job object at reference \<open>r\<close>.\<close>

definition worker_submitJob :: "string \<Rightarrow> nat \<Rightarrow> worker_state \<Rightarrow> worker_state" where
  "worker_submitJob now r s =
     (case ws_heap s r of
        None \<Rightarrow> s
      | Some job \<Rightarrow>
          s\<lparr>ws_queue := enqueue (priority_of (ws_heap s)) (ws_queue s) r,
            ws_reporter := reporter_createJob now (jd_id job) (jd_platform job) (jd_dryRun job)
                             None (ws_reporter s)\<rparr>)"

fun findIndex :: "('a \<Rightarrow> bool) \<Rightarrow> 'a list \<Rightarrow> nat option" where
  "findIndex P [] = None"
| "findIndex P (x # xs) =
     (if P x then Some 0 else map_option Suc (findIndex P xs))"

definition worker_cancelJob :: "string \<Rightarrow> string \<Rightarrow> worker_state \<Rightarrow> worker_state" where
  "worker_cancelJob now jobId s =
     (let s1 = (case Map_get (ws_activeJobs s) jobId of
                  None \<Rightarrow> s
                | Some c \<Rightarrow> (abort c s)\<lparr>ws_activeJobs := Map_delete (ws_activeJobs s) jobId\<rparr>);
          s2 = (case findIndex (\<lambda>r. map_option jd_id (ws_heap s1 r) = Some jobId) (ws_queue s1) of
                  None \<Rightarrow> s1
                | Some i \<Rightarrow> s1\<lparr>ws_queue := take i (ws_queue s1) @ drop (Suc i) (ws_queue s1)\<rparr>)
      in s2\<lparr>ws_reporter := reporter_cancelJob now jobId (ws_reporter s2)\<rparr>)"

text \<open>The job types the \<open>switch\<close> of \<open>processJob\<close> dispatches; every other type throws.\<close>

definition dispatched :: "JobType \<Rightarrow> bool" where
  "dispatched ty \<longleftrightarrow> ty \<in> set
     [IOS_SUBMIT_TESTFLIGHT_INTERNAL, IOS_SUBMIT_TESTFLIGHT_EXTERNAL, IOS_SUBMIT_APP_STORE,
      ANDROID_SUBMIT_INTERNAL, ANDROID_SUBMIT_ALPHA, ANDROID_SUBMIT_BETA,
      ANDROID_SUBMIT_PRODUCTION, VALIDATE_METADATA, NORMALIZE_ASSETS, PREFLIGHT_CHECK]"

text \<open>\<open>processJob\<close> after its \<open>try\<close> block: the result is recorded (lines 253 to 276).\<close>

definition processJob_record :: "string \<Rightarrow> nat \<Rightarrow> JobResult \<Rightarrow> worker_state \<Rightarrow> worker_state" where
  "processJob_record now r result s =
     (case ws_heap s r of
        None \<Rightarrow> s
      | Some job \<Rightarrow>
          (let s1 =
             (if jr_success result
              then (set_job r (job\<lparr>jd_status := SUCCEEDED, jd_completedAt := Some now,
                                     jd_result := jr_data result\<rparr>) s)
                     \<lparr>ws_reporter := setJobResult now (jd_id job)
                        \<lparr> rr_success = True, rr_url = jr_data result, rr_version = None,
                          rr_errors = [], rr_warnings = jr_warnings result \<rparr>
                        (ws_reporter s)\<rparr>
              else (set_job r (job\<lparr>jd_status := FAILED, jd_completedAt := Some now,
                                     jd_error := jr_error result\<rparr>) s)
                     \<lparr>ws_reporter := setJobResult now (jd_id job)
                        \<lparr> rr_success = False, rr_url = None, rr_version = None,
                          rr_errors = (if truthy (jr_error result)
                                       then [show_nullable (jr_error result)] else []),
                          rr_warnings = jr_warnings result \<rparr>
                        (ws_reporter s)\<rparr>)
           in s1\<lparr>ws_jobCounters := incrementJobCounter (ws_jobCounters s1) (jd_type job)\<rparr>))"

text \<open>
  \<open>processJob\<close> from the point where the awaited call settles. The first component is
  the exception \<open>processJob\<close> rejects with: its \<open>catch\<close> turns every exception of the
  dispatch into a result or into a cancellation, and nothing after the \<open>try\<close> block
  throws, so it is \<open>None\<close> on every path.
\<close>

definition processJob_settle ::
  "string \<Rightarrow> nat \<Rightarrow> nat \<Rightarrow> outcome \<Rightarrow> worker_state \<Rightarrow> string option \<times> worker_state" where
  "processJob_settle now r c out s =
     (case out of
        Returned result \<Rightarrow> (None, processJob_record now r result s)
      | Threw msg \<Rightarrow>
          if aborted c s
          then (case ws_heap s r of
                  None \<Rightarrow> (None, s)
                | Some job \<Rightarrow> (None, set_job r (job\<lparr>jd_status := CANCELLED\<rparr>) s))
          else (None, processJob_record now r (createJobErrorResult msg []) s))"

text \<open>
  The \<open>catch\<close> block of \<open>processNextJob\<close>: retry with backoff while budget remains,
  otherwise fail. A retry is a pending timer (delay and job reference).
\<close>

definition processNextJob_catch :: "string \<Rightarrow> nat \<Rightarrow> string \<Rightarrow> worker_state \<Rightarrow> worker_state" where
  "processNextJob_catch now r msg s =
     (case ws_heap s r of
        None \<Rightarrow> s
      | Some job \<Rightarrow>
          if shouldRetryJob job
          then (let job1 = job\<lparr>jd_retryCount := jd_retryCount job + 1\<rparr>;
                    delay = calculateRetryDelay (jd_retryCount job1) None
                in (set_job r job1 s)\<lparr>ws_timers := ws_timers s @ [(delay, r)]\<rparr>)
          else (set_job r (job\<lparr>jd_status := FAILED\<rparr>) s)
                 \<lparr>ws_reporter := setJobResult now (jd_id job)
                    \<lparr> rr_success = False, rr_url = None, rr_version = None,
                      rr_errors = [msg], rr_warnings = [] \<rparr>
                    (ws_reporter s)\<rparr>)"

text \<open>\<open>processNextJob\<close> after \<open>await this.processJob(...)\<close>: \<open>catch\<close> and \<open>finally\<close>.\<close>

definition processNextJob_settle ::
  "string \<Rightarrow> nat \<Rightarrow> nat \<Rightarrow> outcome \<Rightarrow> worker_state \<Rightarrow> worker_state" where
  "processNextJob_settle now r c out s =
     (let (thrown, s1) = processJob_settle now r c out s;
          s2 = (case thrown of None \<Rightarrow> s1 | Some msg \<Rightarrow> processNextJob_catch now r msg s1)
      in case ws_heap s2 r of
           None \<Rightarrow> s2
         | Some job \<Rightarrow> s2\<lparr>ws_activeJobs := Map_delete (ws_activeJobs s2) (jd_id job)\<rparr>)"

text \<open>
  \<open>processNextJob\<close> up to the first suspension: the job is dequeued, gets a fresh abort
  controller and is marked \<open>RUNNING\<close>. A dispatched type suspends in its awaited call
  (recorded in \<open>ws_suspended\<close>); any other type throws at once and settles in the same
  turn.
\<close>

definition processNextJob :: "string \<Rightarrow> worker_state \<Rightarrow> worker_state" where
  "processNextJob now s =
     (if \<not> ws_processing s then s
      else case dequeue (ws_queue s) of
        (None, _) \<Rightarrow> s
      | (Some r, rest) \<Rightarrow>
          (case ws_heap s r of
             None \<Rightarrow> s\<lparr>ws_queue := rest\<rparr>
           | Some job \<Rightarrow>
               (let c = length (ws_controllers s);
                    s1 = s\<lparr>ws_queue := rest,
                           ws_controllers := ws_controllers s @ [False],
                           ws_activeJobs := Map_set (ws_activeJobs s) (jd_id job) c\<rparr>
                in if aborted c s1
                   then (set_job r (job\<lparr>jd_status := CANCELLED\<rparr>) s1)
                          \<lparr>ws_activeJobs := Map_delete (ws_activeJobs s1) (jd_id job)\<rparr>
                   else
                     (let s2 = (set_job r (job\<lparr>jd_status := RUNNING,
                                                 jd_startedAt := Some now\<rparr>) s1)
                                 \<lparr>ws_reporter := updateJobStatus now (jd_id job) RUNNING
                                                    (ws_reporter s1)\<rparr>
                      in if dispatched (jd_type job)
                         then s2\<lparr>ws_suspended := ws_suspended s2 @ [(r, c)]\<rparr>
                         else processNextJob_settle now r c
                                (Threw (''Unknown job type: '' @ JobType_value (jd_type job)))
                                s2))))"

text \<open>The callback of a retry timer: \<open>job.status = QUEUED; this.queue.enqueue(job)\<close>.\<close>

definition retry_fire :: "nat \<Rightarrow> worker_state \<Rightarrow> worker_state" where
  "retry_fire r s =
     (case ws_heap s r of
        None \<Rightarrow> s
      | Some job \<Rightarrow>
          (let s1 = set_job r (job\<lparr>jd_status := QUEUED\<rparr>) s
           in s1\<lparr>ws_queue := enqueue (priority_of (ws_heap s1)) (ws_queue s1) r\<rparr>))"

definition remove_nth :: "nat \<Rightarrow> 'a list \<Rightarrow> 'a list" where
  "remove_nth k xs = take k xs @ drop (Suc k) xs"

text \<open>
  What can happen to a worker, one event at a time: the caller creates a job object,
  calls \<open>start\<close>, \<open>stop\<close>, \<open>submitJob\<close> or \<open>cancelJob\<close>; the interval timer ticks; a
  suspended dispatch reports progress or settles; a retry timer fires. Every event
  carries the clock reading \<open>now\<close>.
\<close>

datatype worker_op =
    Alloc JobDefinition
  | Start
  | Stop
  | Submit nat
  | Cancel string
  | Tick
  | Progress nat ProgressCode string "int option"
  | Settle nat outcome
  | Fire nat

fun worker_step :: "string \<Rightarrow> worker_op \<Rightarrow> worker_state \<Rightarrow> worker_state" where
  "worker_step now (Alloc job) s =
     s\<lparr>ws_heap := (ws_heap s)(ws_next s \<mapsto> job), ws_next := ws_next s + 1\<rparr>"
| "worker_step now Start s = worker_start s"
| "worker_step now Stop s = worker_stop now s"
| "worker_step now (Submit r) s = worker_submitJob now r s"
| "worker_step now (Cancel jobId) s = worker_cancelJob now jobId s"
| "worker_step now Tick s = (if ws_intervalId s then processNextJob now s else s)"
| "worker_step now (Progress k code message percentage) s =
     (if k < length (ws_suspended s)
      then (case ws_heap s (fst (ws_suspended s ! k)) of
              None \<Rightarrow> s
            | Some job \<Rightarrow>
                s\<lparr>ws_reporter := addProgress now (jd_id job) code message percentage None
                                   (ws_reporter s)\<rparr>)
      else s)"
| "worker_step now (Settle k out) s =
     (if k < length (ws_suspended s)
      then processNextJob_settle now (fst (ws_suspended s ! k)) (snd (ws_suspended s ! k)) out
             (s\<lparr>ws_suspended := remove_nth k (ws_suspended s)\<rparr>)
      else s)"
| "worker_step now (Fire k) s =
     (if k < length (ws_timers s)
      then retry_fire (snd (ws_timers s ! k)) (s\<lparr>ws_timers := remove_nth k (ws_timers s)\<rparr>)
      else s)"

fun worker_run :: "(string \<times> worker_op) list \<Rightarrow> worker_state \<Rightarrow> worker_state" where
  "worker_run [] s = s"
| "worker_run ((now, ev) # evs) s = worker_run evs (worker_step now ev s)"

section \<open>Reference behaviour of the queue\<close>

text \<open>
  The queue as the specification words it: the pending jobs in the order they were
  enqueued; \<open>dequeue\<close> takes the first pending job that no pending job outranks, that
  is, a job of maximal priority and among those the one enqueued earliest.
\<close>

definition spec_enqueue :: "'a list \<Rightarrow> 'a \<Rightarrow> 'a list" where
  "spec_enqueue pending job = pending @ [job]"

definition spec_dequeue :: "('a \<Rightarrow> int) \<Rightarrow> 'a list \<Rightarrow> 'a option \<times> 'a list" where
  "spec_dequeue prio pending =
     (case find (\<lambda>j. list_all (\<lambda>k. prio k \<le> prio j) pending) pending of
        None \<Rightarrow> (None, pending)
      | Some j \<Rightarrow> (Some j, remove1 j pending))"

datatype 'a queue_op = Enqueue 'a | Dequeue

text \<open>A run returns what the \<open>dequeue\<close> calls returned, in order, and the final state.\<close>

fun queue_run :: "('a \<Rightarrow> int) \<Rightarrow> 'a queue_op list \<Rightarrow> 'a list \<Rightarrow> 'a option list \<times> 'a list" where
  "queue_run prio [] queue = ([], queue)"
| "queue_run prio (Enqueue job # ops) queue = queue_run prio ops (enqueue prio queue job)"
| "queue_run prio (Dequeue # ops) queue =
     (let (res, queue') = dequeue queue;
          (out, final) = queue_run prio ops queue'
      in (res # out, final))"

fun spec_run :: "('a \<Rightarrow> int) \<Rightarrow> 'a queue_op list \<Rightarrow> 'a list \<Rightarrow> 'a option list \<times> 'a list" where
  "spec_run prio [] pending = ([], pending)"
| "spec_run prio (Enqueue job # ops) pending = spec_run prio ops (spec_enqueue pending job)"
| "spec_run prio (Dequeue # ops) pending =
     (let (res, pending') = spec_dequeue prio pending;
          (out, final) = spec_run prio ops pending'
      in (res # out, final))"

section \<open>Terminal progress events\<close>

definition terminal_code :: "ProgressCode \<Rightarrow> bool" where
  "terminal_code c \<longleftrightarrow> c = JOB_COMPLETED \<or> c = JOB_FAILED \<or> c = JOB_CANCELLED"

definition terminal_events :: "PublishJob \<Rightarrow> ProgressCode list" where
  "terminal_events job = filter terminal_code (map jp_code (pj_progress job))"

fun code_of_status :: "JobStatus \<Rightarrow> ProgressCode option" where
  "code_of_status SUCCEEDED = Some JOB_COMPLETED"
| "code_of_status FAILED = Some JOB_FAILED"
| "code_of_status CANCELLED = Some JOB_CANCELLED"
| "code_of_status QUEUED = None"
| "code_of_status RUNNING = None"
| "code_of_status WAITING = None"

section \<open>Notions used in the statements\<close>

text \<open>
  A later state \<open>job'\<close> of a job object \<open>evolves\<close> from an earlier one when the retry
  count has not decreased, the retry budget is the same, and the count is still within
  the budget if it was.
\<close>

definition evolves :: "JobDefinition \<Rightarrow> JobDefinition \<Rightarrow> bool" where
  "evolves job job' \<longleftrightarrow>
     jd_retryCount job \<le> jd_retryCount job'
   \<and> jd_maxRetries job' = jd_maxRetries job
   \<and> (jd_retryCount job \<le> jd_maxRetries job \<longrightarrow> jd_retryCount job' \<le> jd_maxRetries job')"

text \<open>Two worker states hold the same job objects, each evolved.\<close>

definition same_objects :: "worker_state \<Rightarrow> worker_state \<Rightarrow> bool" where
  "same_objects s s' \<longleftrightarrow>
     ws_next s' = ws_next s
   \<and> (\<forall>r. ws_heap s r = None \<longrightarrow> ws_heap s' r = None)
   \<and> (\<forall>r job. ws_heap s r = Some job \<longrightarrow> (\<exists>job'. ws_heap s' r = Some job' \<and> evolves job job'))"

text \<open>
  The invariant of the worker: every job object lies below the allocation mark and its
  retry count is within its budget.
\<close>

definition worker_inv :: "worker_state \<Rightarrow> bool" where
  "worker_inv s \<longleftrightarrow>
     (\<forall>r job. ws_heap s r = Some job \<longrightarrow> r < ws_next s \<and> jd_retryCount job \<le> jd_maxRetries job)"

text \<open>
  An event is admissible when a job object it creates starts within its budget, as the
  jobs of \<open>createJob\<close> do (their count is 0).
\<close>

fun admissible :: "worker_op \<Rightarrow> bool" where
  "admissible (Alloc job) = (jd_retryCount job \<le> jd_maxRetries job)"
| "admissible ev = True"

text \<open>
  A dispatch attempt fails when the awaited call throws while the job is not cancelled,
  or returns an unsuccessful result.
\<close>

definition dispatch_failed :: "nat \<Rightarrow> worker_state \<Rightarrow> outcome \<Rightarrow> bool" where
  "dispatch_failed c s out \<longleftrightarrow>
     (case out of Threw msg \<Rightarrow> \<not> aborted c s | Returned result \<Rightarrow> \<not> jr_success result)"

section \<open>Sample inputs\<close>

definition no_options :: JobOptions where
  "no_options = \<lparr> opt_priority = None, opt_dryRun = None, opt_maxRetries = None,
       opt_scheduledAt = None \<rparr>"

definition ios_job :: JobDefinition where
  "ios_job = createJob ''job-1'' ''2024-01-01T00:00:00.000Z'' IOS_SUBMIT_APP_STORE IOS
       (JObject [(''bundleId'', JString ''com.example.app'')]) no_options"

text \<open>
  A submission whose upload throws a network error: the job is created with the default
  budget of three retries, submitted, dequeued at the first tick, and its dispatch then
  throws.
\<close>

definition failed_attempt :: "(string \<times> worker_op) list" where
  "failed_attempt =
     [(''2024-01-01T00:00:00.000Z'', Alloc ios_job),
      (''2024-01-01T00:00:00.100Z'', Submit 0),
      (''2024-01-01T00:00:00.200Z'', Start),
      (''2024-01-01T00:00:01.200Z'', Tick),
      (''2024-01-01T00:00:02.000Z'', Settle 0 (Threw ''socket hang up''))]"

definition validate_job :: JobDefinition where
  "validate_job = createJob ''job-2'' ''2024-01-01T00:00:00.000Z'' VALIDATE_METADATA BOTH
       (JObject [(''dryRun'', JBool True)]) no_options"


text \<open>The same job, cancelled while suspended, whose dispatch then throws.\<close>

definition cancelled_then_threw :: "(string \<times> worker_op) list" where
  "cancelled_then_threw =
     [(''2024-01-01T00:00:00.000Z'', Alloc validate_job),
      (''2024-01-01T00:00:00.100Z'', Submit 0),
      (''2024-01-01T00:00:00.200Z'', Start),
      (''2024-01-01T00:00:01.200Z'', Tick),
      (''2024-01-01T00:00:01.300Z'', Cancel ''job-2''),
      (''2024-01-01T00:00:01.400Z'', Settle 0 (Threw ''The operation was aborted''))]"

text \<open>A worker that holds one job object, and the events of one failing attempt.\<close>

definition android_job :: JobDefinition where
  "android_job = createJob ''job-3'' ''2024-01-01T00:00:00.000Z'' ANDROID_SUBMIT_BETA ANDROID
       (JObject [(''packageName'', JString ''com.example.app'')]) no_options"

definition one_object :: worker_state where
  "one_object = worker_step ''2024-01-01T00:00:00.000Z'' (Alloc android_job) worker_init"

definition one_attempt :: "(string \<times> worker_op) list" where
  "one_attempt =
     [(''2024-01-01T00:00:00.100Z'', Submit 0),
      (''2024-01-01T00:00:00.200Z'', Start),
      (''2024-01-01T00:00:01.200Z'', Tick),
      (''2024-01-01T00:00:02.000Z'', Settle 0 (Threw ''upload timed out''))]"

text \<open>A worker whose only job has no retry budget (\<open>maxRetries = 0\<close>).\<close>

definition spent_job :: JobDefinition where
  "spent_job = createJob ''job-4'' ''2024-01-01T00:00:00.000Z'' NORMALIZE_ASSETS IOS
       JUndefined (no_options\<lparr> opt_maxRetries := Some 0 \<rparr>)"

definition spent_state :: worker_state where
  "spent_state = set_job 0 spent_job (worker_init\<lparr> ws_next := 1 \<rparr>)"

text \<open>Three jobs for the queue: two of low priority around one of high priority.\<close>

definition low_first :: JobDefinition where
  "low_first = createJob ''job-a'' ''2024-01-01T00:00:00.000Z'' NORMALIZE_ASSETS IOS
       JUndefined (no_options\<lparr> opt_priority := Some LOW \<rparr>)"

definition high_job :: JobDefinition where
  "high_job = createJob ''job-b'' ''2024-01-01T00:00:01.000Z'' IOS_SUBMIT_APP_STORE IOS
       JUndefined (no_options\<lparr> opt_priority := Some HIGH \<rparr>)"

definition low_second :: JobDefinition where
  "low_second = createJob ''job-c'' ''2024-01-01T00:00:02.000Z'' PREFLIGHT_CHECK ANDROID
       JUndefined (no_options\<lparr> opt_priority := Some LOW \<rparr>)"

definition queue_script :: "JobDefinition queue_op list" where
  "queue_script =
     [Enqueue low_first, Enqueue high_job, Enqueue low_second,
      Dequeue, Dequeue, Dequeue, Dequeue]"

text \<open>A reporter that knows one job, and two results reported for it in turn.\<close>

definition one_job :: reporter where
  "one_job = reporter_createJob ''2024-01-01T00:00:00.000Z'' ''job-1'' IOS True None Map.empty"

definition first_result :: ReportResult where
  "first_result =
     \<lparr> rr_success = True, rr_url = Some (JString ''https://appstoreconnect.apple.com/apps''),
       rr_version = None, rr_errors = [], rr_warnings = [] \<rparr>"

definition second_result :: ReportResult where
  "second_result =
     \<lparr> rr_success = False, rr_url = None, rr_version = None,
       rr_errors = [''late failure''], rr_warnings = [] \<rparr>"

definition reported_once :: reporter where
  "reported_once = setJobResult ''2024-01-01T00:00:05.000Z'' ''job-1'' first_result one_job"

definition reported_twice :: reporter where
  "reported_twice =
     setJobResult ''2024-01-01T00:00:09.000Z'' ''job-1'' second_result reported_once"

text \<open>
  A metadata document that satisfies the schema and is complete, on the production
  track with a staged-rollout fraction of 0 (the schema admits fractions from 0 to 1).
\<close>

definition rollout_zero :: StoreMetadata where
  "rollout_zero =
     \<lparr> sm_ios =
         \<lparr> ios_bundleId = ''com.example.app'',
           ios_version = ''1.2.0'',
           ios_buildNumber = ''42'',
           ios_exportCompliance = \<lparr> ec_usesEncryption = False, ec_isExempt = False \<rparr>,
           ios_reviewInformation = \<lparr> ri_contactEmail = Some ''review@example.com'' \<rparr>,
           ios_appInformation =
             \<lparr> ai_description = Some ''A sample application.'',
               ai_privacyPolicyUrl = Some ''https://example.com/privacy'' \<rparr>,
           ios_screenshots = \<lparr> sc_iphone67 = [''1.png'', ''2.png'', ''3.png''] \<rparr> \<rparr>,
       sm_android =
         \<lparr> and_packageName = ''com.example.app'',
           and_versionCode = Finite 42,
           and_track = ''production'',
           and_userFraction = Some 0,
           and_listing =
             \<lparr> al_title = Some ''Sample'',
               al_shortDescription = Some (replicate 80 (CHR ''x'')),
               al_privacyPolicyUrl = Some ''https://example.com/privacy'' \<rparr>,
           and_dataSafety = Some \<lparr> ds_collectedData =
             Some [JObject [(''type'', JString ''Email''),
                            (''purpose'', JArray [JString ''Account management''])]] \<rparr> \<rparr> \<rparr>"

text \<open>
  The same document on the beta track without a fraction, declaring no collected data
  (the schema admits the empty array).
\<close>

definition no_collected_data :: StoreMetadata where
  "no_collected_data =
     rollout_zero\<lparr> sm_android := (sm_android rollout_zero)
       \<lparr> and_track := ''beta'', and_userFraction := None,
         and_dataSafety := Some \<lparr> ds_collectedData = Some [] \<rparr> \<rparr> \<rparr>"

text \<open>
  No number beyond \<open>2^53\<close> is printed for the sample inputs; the text of one is left
  empty.
\<close>

definition no_large_numbers :: "int \<Rightarrow> string" where
  "no_large_numbers i = []"

text \<open>
  A process that is not in dry-run mode and has the credentials of both stores, and one
  in dry-run mode.
\<close>

definition live_process :: ClientEnv where
  "live_process = \<lparr> ce_dryRun = False, ce_ascCredentials = True, ce_playCredentials = True \<rparr>"


text \<open>
  An environment where the document parses and the store clients of the live process
  answer (they know no earlier release).
\<close>

definition quiet_env :: PreflightEnv where
  "quiet_env =
     \<lparr> env_parsed = None,
       env_asc = asc_lookup live_process ''com.example.app'',
       env_play = PlayDeveloperClient_getLastVersionCode live_process ''com.example.app'',
       env_redactSecrets = id,
       env_toNumber = parseInt,
       env_printLarge = no_large_numbers \<rparr>"

section \<open>The queue dequeues by priority, then by insertion order\<close>

text \<open>
  The comparator of \<open>enqueue\<close> makes \<open>Array_sort\<close> the library's stable insertion sort
  on the negated priority.
\<close>

lemma insert_sorted_insort:
  "insert_sorted (by_priority prio) a bs = insort_key (\<lambda>x. - prio x) a bs"
  by (induction bs) (auto simp: by_priority_def)

lemma Array_sort_sort_key:
  "Array_sort (by_priority prio) xs = sort_key (\<lambda>x. - prio x) xs"
proof -
  have "insert_sorted (by_priority prio) = insort_key (\<lambda>x. - prio x)"
    by (intro ext) (rule insert_sorted_insort)
  then show ?thesis by (simp add: Array_sort_def sort_key_def)
qed

lemma sort_key_snoc:
  "sort_key f (sort_key f xs @ [j]) = sort_key f (xs @ [j])"
proof (rule properties_for_sort_key)
  show "mset (sort_key f (xs @ [j])) = mset (sort_key f xs @ [j])" by simp
  show "sorted (map f (sort_key f (xs @ [j])))" by simp
next
  fix k
  have "filter (\<lambda>x. f k = f x) (sort_key f (xs @ [j])) = filter (\<lambda>x. f k = f x) (xs @ [j])"
    using sort_key_stable [of f "f k" "xs @ [j]"] by (simp add: eq_commute)
  moreover have "filter (\<lambda>x. f k = f x) (sort_key f xs) = filter (\<lambda>x. f k = f x) xs"
    using sort_key_stable [of f "f k" xs] by (simp add: eq_commute)
  ultimately show "filter (\<lambda>x. f k = f x) (sort_key f (xs @ [j]))
      = filter (\<lambda>x. f k = f x) (sort_key f xs @ [j])" by simp
qed

lemma find_filter:
  "find P xs = (case filter P xs of [] \<Rightarrow> None | x # _ \<Rightarrow> Some x)"
  by (induction xs) auto

lemma sort_key_head:
  fixes prio :: "'a \<Rightarrow> int"
  assumes "sort_key (\<lambda>x. - prio x) xs = y # rest"
  shows "find (\<lambda>j. list_all (\<lambda>k. prio k \<le> prio j) xs) xs = Some y"
proof -
  let ?f = "\<lambda>x. - prio x"
  have srt: "sorted (map ?f (y # rest))"
    using sorted_sort_key [of ?f xs] unfolding assms .
  have seteq: "set xs = set (y # rest)"
    using set_sort [of ?f xs] unfolding assms by (rule sym)
  have top: "prio k \<le> prio y" if "k \<in> set xs" for k
  proof (cases "k = y")
    case True
    then show ?thesis by simp
  next
    case False
    with that seteq have "k \<in> set rest" by simp
    with srt have "- prio y \<le> - prio k" by simp
    then show ?thesis by simp
  qed
  have yin: "y \<in> set xs" unfolding seteq by simp
  have "filter (\<lambda>j. list_all (\<lambda>k. prio k \<le> prio j) xs) xs = filter (\<lambda>x. ?f x = ?f y) xs"
  proof (rule filter_cong [OF refl])
    fix j assume jin: "j \<in> set xs"
    have le: "prio j \<le> prio y" using top [OF jin] .
    show "list_all (\<lambda>k. prio k \<le> prio j) xs = (?f j = ?f y)"
    proof (rule iffI)
      assume "list_all (\<lambda>k. prio k \<le> prio j) xs"
      then have "\<forall>k \<in> set xs. prio k \<le> prio j" unfolding list_all_iff .
      with yin have "prio y \<le> prio j" by blast
      with le show "?f j = ?f y" by simp
    next
      assume "?f j = ?f y"
      then have eq: "prio j = prio y" by simp
      show "list_all (\<lambda>k. prio k \<le> prio j) xs"
        unfolding list_all_iff eq using top by blast
    qed
  qed
  also have "\<dots> = filter (\<lambda>x. ?f x = ?f y) (sort_key ?f xs)"
    by (rule sort_key_stable [symmetric])
  also have "\<dots> = y # filter (\<lambda>x. ?f x = ?f y) rest"
    unfolding assms by simp
  finally have "filter (\<lambda>j. list_all (\<lambda>k. prio k \<le> prio j) xs) xs
      = y # filter (\<lambda>x. ?f x = ?f y) rest" .
  then show ?thesis unfolding find_filter by simp
qed

lemma sort_key_tail:
  assumes "sort_key f xs = y # rest"
  shows "sort_key f (remove1 y xs) = rest"
proof (rule properties_for_sort_key)
  have "mset xs = mset (y # rest)" using assms mset_sort [of f xs] by simp
  then show "mset rest = mset (remove1 y xs)" by simp
  show "sorted (map f rest)" using assms sorted_sort_key [of f xs] by simp
next
  fix k
  have st: "filter (\<lambda>x. f k = f x) xs = filter (\<lambda>x. f k = f x) (y # rest)"
    using sort_key_stable [of f "f k" xs] assms by (simp add: eq_commute)
  show "filter (\<lambda>x. f k = f x) rest = filter (\<lambda>x. f k = f x) (remove1 y xs)"
  proof (cases "f k = f y")
    case True
    then show ?thesis using st by (simp add: filter_remove1)
  next
    case False
    then have "filter (\<lambda>x. f k = f x) (remove1 y xs) = filter (\<lambda>x. f k = f x) xs"
      by (induction xs) auto
    then show ?thesis using st False by simp
  qed
qed

lemma queue_run_refines:
  "queue_run prio evs (Array_sort (by_priority prio) pending)
     = (fst (spec_run prio evs pending),
        Array_sort (by_priority prio) (snd (spec_run prio evs pending)))"
proof (induction evs arbitrary: pending)
  case Nil
  show ?case by simp
next
  case (Cons ev evs)
  show ?case
  proof (cases ev)
    case (Enqueue job)
    have "enqueue prio (Array_sort (by_priority prio) pending) job
            = Array_sort (by_priority prio) (spec_enqueue pending job)"
      by (simp add: enqueue_def spec_enqueue_def Array_sort_sort_key sort_key_snoc)
    then show ?thesis using Cons.IH [of "spec_enqueue pending job"] Enqueue by simp
  next
    case Dequeue
    show ?thesis
    proof (cases "sort_key (\<lambda>x. - prio x) pending")
      case Nil
      then have "pending = []" by (metis length_sort length_0_conv)
      then show ?thesis using Dequeue Cons.IH [of "[]"]
        by (simp add: spec_dequeue_def Array_sort_def split: prod.splits)
    next
      case (Cons y rest)
      have sd: "spec_dequeue prio pending = (Some y, remove1 y pending)"
        using sort_key_head [OF Cons] by (simp add: spec_dequeue_def)
      have dq: "dequeue (Array_sort (by_priority prio) pending)
                  = (Some y, Array_sort (by_priority prio) (remove1 y pending))"
        using Cons sort_key_tail [OF Cons] by (simp add: Array_sort_sort_key)
      show ?thesis using Dequeue Cons.IH [of "remove1 y pending"] sd dq
        by (simp split: prod.splits)
    qed
  qed
qed

text \<open>
  What the reference \<open>spec_dequeue\<close> takes: a job that no pending job outranks, with
  only jobs of strictly lower priority enqueued before it.
\<close>

lemma spec_dequeue_picks:
  fixes prio :: "'a \<Rightarrow> int"
  assumes "spec_dequeue prio pending = (Some j, rest)"
  shows "\<exists>before after. pending = before @ j # after \<and> rest = before @ after
           \<and> (\<forall>k \<in> set before. prio k < prio j) \<and> (\<forall>k \<in> set after. prio k \<le> prio j)"
proof -
  let ?P = "\<lambda>j. list_all (\<lambda>k. prio k \<le> prio j) pending"
  have f: "find ?P pending = Some j" and r: "rest = remove1 j pending"
    using assms by (auto simp: spec_dequeue_def split: option.splits)
  from f obtain i where i: "i < length pending" "?P (pending ! i)" "j = pending ! i"
      "\<forall>m<i. \<not> ?P (pending ! m)"
    unfolding find_Some_iff by blast
  define before where "before = take i pending"
  define after where "after = drop (Suc i) pending"
  have split: "pending = before @ j # after"
    unfolding before_def after_def i(3) using i(1) by (rule id_take_nth_drop)
  have top: "\<forall>k \<in> set pending. prio k \<le> prio j"
    using i(2,3) by (simp add: list_all_iff)
  have low: "prio k < prio j" if "k \<in> set before" for k
  proof -
    from that obtain m where m: "m < i" "k = pending ! m"
      unfolding before_def using i(1) by (auto simp: in_set_conv_nth)
    then have "\<not> ?P k" using i(4) by simp
    then obtain k' where "k' \<in> set pending" "\<not> prio k' \<le> prio k"
      by (auto simp: list_all_iff)
    moreover have "prio k' \<le> prio j" using top calculation(1) by blast
    ultimately show ?thesis by simp
  qed
  then have "j \<notin> set before" by auto
  then have "rest = before @ after" using r split by (simp add: remove1_append)
  moreover have "\<forall>k \<in> set after. prio k \<le> prio j" using top split by auto
  ultimately show ?thesis using split low by blast
qed

lemma sample_priorities:
  "jd_priority low_first = 0" "jd_priority high_job = 2" "jd_priority low_second = 0"
  by (simp_all add: low_first_def high_job_def low_second_def createJob_def no_options_def
      LOW_def HIGH_def)

text \<open>
  C8. For every sequence of \<open>enqueue\<close> and \<open>dequeue\<close> calls on an empty queue, the
  \<open>dequeue\<close> calls return what the reference queue returns: a pending job of maximal
  priority, the earliest enqueued among those of equal priority. \<open>dequeue\<close> on the empty
  queue returns nothing. \<open>enqueue\<close> keeps the queued job records and adds the new one,
  and \<open>dequeue\<close> splits off the head, so no field of a job, its status included,
  changes.
\<close>

theorem queue_dequeues_by_priority_then_insertion:
  "fst (queue_run jd_priority evs []) = fst (spec_run jd_priority evs [])
   \<and> dequeue ([] :: JobDefinition list) = (None, [])
   \<and> mset (enqueue jd_priority queue job) = mset queue + {#job#}
   \<and> (case dequeue queue of
         (None, rest) \<Rightarrow> queue = [] \<and> rest = []
       | (Some j, rest) \<Rightarrow> queue = j # rest)"
proof (intro conjI)
  show "fst (queue_run jd_priority evs []) = fst (spec_run jd_priority evs [])"
    using queue_run_refines [of jd_priority evs "[]"] by (simp add: Array_sort_def)
  show "dequeue ([] :: JobDefinition list) = (None, [])" by simp
  show "mset (enqueue jd_priority queue job) = mset queue + {#job#}"
    by (simp add: enqueue_def Array_sort_sort_key)
  show "case dequeue queue of
          (None, rest) \<Rightarrow> queue = [] \<and> rest = []
        | (Some j, rest) \<Rightarrow> queue = j # rest"
    by (cases queue) simp_all
qed

theorem queue_dequeues_by_priority_then_insertion_witness:
  "fst (queue_run jd_priority queue_script [])
     = [Some high_job, Some low_first, Some low_second, None]
   \<and> fst (spec_run jd_priority queue_script [])
     = [Some high_job, Some low_first, Some low_second, None]"
proof -
  have "fst (queue_run jd_priority queue_script [])
          = [Some high_job, Some low_first, Some low_second, None]"
    by (simp add: queue_script_def enqueue_def Array_sort_def by_priority_def sample_priorities)
  moreover have "fst (spec_run jd_priority queue_script [])
          = fst (queue_run jd_priority queue_script [])"
    using queue_dequeues_by_priority_then_insertion [of queue_script "[]" low_first]
    by (simp only:)
  ultimately show ?thesis by simp
qed

section \<open>Arithmetic of doubles\<close>

lemma bitlen_double: "0 < a \<Longrightarrow> bitlen (2 * a) = Suc (bitlen a)"
  by (subst bitlen.simps) simp

lemma bitlen_shift: "0 < a \<Longrightarrow> bitlen (a * 2 ^ n) = bitlen a + n"
proof (induction n)
  case 0
  then show ?case by simp
next
  case (Suc n)
  have e: "a * 2 ^ Suc n = 2 * (a * 2 ^ n)" by simp
  have "bitlen (2 * (a * 2 ^ n)) = Suc (bitlen (a * 2 ^ n))"
    by (rule bitlen_double) (use Suc.prems in simp)
  then show ?case unfolding e using Suc.IH [OF Suc.prems] by simp
qed

lemma bitlen_le: "a < 2 ^ k \<Longrightarrow> bitlen a \<le> k"
proof (induction k arbitrary: a)
  case 0
  then show ?case by (simp add: bitlen.simps [of 0])
next
  case (Suc k)
  show ?case
  proof (cases "a = 0")
    case True
    then show ?thesis by (simp add: bitlen.simps [of 0])
  next
    case False
    have "a div 2 < 2 ^ k" using Suc.prems by simp
    then have "bitlen (a div 2) \<le> k" by (rule Suc.IH)
    then show ?thesis using False by (subst bitlen.simps) simp
  qed
qed

text \<open>Rounding leaves a number alone whose bits beyond the leading 53 are zero.\<close>

lemma round53_exact:
  assumes "2 ^ (bitlen a - 53) dvd a"
  shows "round53 a = a"
proof (cases "bitlen a - 53 = 0")
  case True
  then show ?thesis by (simp add: round53_def)
next
  case False
  have r: "a mod 2 ^ (bitlen a - 53) = 0" using assms by (simp add: mod_eq_0_iff_dvd)
  have "a div 2 ^ (bitlen a - 53) * 2 ^ (bitlen a - 53) = a"
    using assms by (rule dvd_div_mult_self)
  then show ?thesis using False r by (simp add: round53_def Let_def)
qed

lemma to_double_representable:
  assumes "representable i"
  shows "to_double i = Finite i"
proof -
  have a: "round53 (nat \<bar>i\<bar>) = nat \<bar>i\<bar>"
    using assms by (intro round53_exact) (simp add: representable_def)
  have b: "\<not> overflow_threshold \<le> nat \<bar>i\<bar>" using assms by (simp add: representable_def)
  show ?thesis using a b by (simp add: to_double_def Let_def)
qed

lemma pow2_below_threshold: "n < 1024 \<Longrightarrow> 2 ^ n < overflow_threshold"
  unfolding overflow_threshold_def by (rule power_strict_increasing) simp_all

text \<open>Every integer of magnitude below \<open>2^53\<close> is a double.\<close>

lemma representable_small:
  assumes "\<bar>i\<bar> < 2 ^ 53"
  shows "representable i"
proof -
  have s: "nat \<bar>i\<bar> < 2 ^ 53" using assms by (simp add: nat_less_iff)
  then have "bitlen (nat \<bar>i\<bar>) \<le> 53" by (rule bitlen_le)
  then have "bitlen (nat \<bar>i\<bar>) - 53 = 0" by simp
  moreover have "nat \<bar>i\<bar> < overflow_threshold"
    using s pow2_below_threshold [of 53] by simp
  ultimately show ?thesis by (simp add: representable_def)
qed

text \<open>A double times a power of two is a double, unless it overflows.\<close>

lemma representable_shift:
  assumes "representable b" and "nat \<bar>b\<bar> * 2 ^ n < overflow_threshold"
  shows "representable (b * 2 ^ n)"
proof (cases "b = 0")
  case True
  then show ?thesis using assms(1) by simp
next
  case False
  define a where "a = nat \<bar>b\<bar>"
  have apos: "0 < a" using False by (simp add: a_def)
  have eq: "nat \<bar>b * 2 ^ n\<bar> = a * 2 ^ n"
    by (simp add: a_def abs_mult nat_mult_distrib nat_power_eq)
  have dv: "2 ^ (bitlen a - 53) dvd a" using assms(1) by (simp add: representable_def a_def)
  have "2 ^ (bitlen a + n - 53) dvd a * 2 ^ n"
  proof (cases "53 \<le> bitlen a")
    case True
    then have "bitlen a + n - 53 = (bitlen a - 53) + n" by simp
    then show ?thesis using dv by (simp add: power_add mult_dvd_mono)
  next
    case False
    then have "bitlen a + n - 53 \<le> n" by simp
    then have "(2::nat) ^ (bitlen a + n - 53) dvd 2 ^ n" by (rule le_imp_power_dvd)
    then show ?thesis by (rule dvd_mult)
  qed
  then have "2 ^ (bitlen (nat \<bar>b * 2 ^ n\<bar>) - 53) dvd nat \<bar>b * 2 ^ n\<bar>"
    unfolding eq by (simp add: bitlen_shift [OF apos])
  moreover have "nat \<bar>b * 2 ^ n\<bar> < overflow_threshold" using assms(2) unfolding eq a_def .
  ultimately show ?thesis by (simp add: representable_def)
qed

lemma Math_pow2_finite:
  assumes "n < 1024"
  shows "Math_pow2 n = Finite (2 ^ n)"
proof -
  have "representable 1" by (rule representable_small) simp
  moreover have "nat \<bar>1::int\<bar> * 2 ^ n < overflow_threshold"
    using pow2_below_threshold [OF assms] by simp
  ultimately have "representable (1 * 2 ^ n)" by (rule representable_shift)
  then show ?thesis by (simp add: Math_pow2_def to_double_representable)
qed

text \<open>
  The rounding at the first integers a double cannot hold: \<open>2^53 + 1\<close> lies halfway
  between two doubles and goes to the even one, \<open>2^53 + 3\<close> goes up.
\<close>

lemma bitlen_beyond_53: "bitlen 9007199254740993 = 54" "bitlen 9007199254740995 = 54"
  by (simp_all add: bitlen.simps [of "numeral n" for n] bitlen.simps [of 0]
      bitlen.simps [of "Suc 0"])

lemma to_double_beyond_53:
  "to_double 9007199254740993 = Finite 9007199254740992"
  "to_double 9007199254740995 = Finite 9007199254740996"
  "js_add (Finite 9007199254740992) (Finite 1) = Finite 9007199254740992"
  by (simp_all add: to_double_def round53_def bitlen_beyond_53 overflow_threshold_def Let_def)

section \<open>Retry delay\<close>

lemma delay_exact:
  assumes "representable b" and "n < 1024" and "nat \<bar>b\<bar> * 2 ^ n < overflow_threshold"
  shows "calculateRetryDelay n (Some (Finite b)) = Finite (b * 2 ^ n)"
  using assms
  by (simp add: calculateRetryDelay_def Math_pow2_finite to_double_representable
      representable_shift)

lemma default_below_threshold:
  assumes "n \<le> 1014"
  shows "nat \<bar>1000::int\<bar> * 2 ^ n < overflow_threshold"
proof -
  have "(1000::nat) * 2 ^ n < 2 ^ 10 * 2 ^ n" by simp
  also have "\<dots> = 2 ^ (10 + n)" by (simp only: power_add)
  also have "\<dots> \<le> 2 ^ 1024" by (rule power_increasing) (use assms in simp_all)
  finally have "(1000::nat) * 2 ^ n < overflow_threshold" unfolding overflow_threshold_def .
  then show ?thesis by simp
qed

lemma delay_default:
  assumes "n \<le> 1014"
  shows "calculateRetryDelay n None = Finite (1000 * 2 ^ n)"
proof -
  have "representable 1000" by (rule representable_small) simp
  then have "calculateRetryDelay n (Some (Finite 1000)) = Finite (1000 * 2 ^ n)"
    using assms default_below_threshold [OF assms] by (intro delay_exact) simp_all
  then show ?thesis by (simp add: calculateRetryDelay_def)
qed

lemma delay_overflow: "calculateRetryDelay 1015 None = PosInfinity"
proof -
  have p: "Math_pow2 1015 = Finite (2 ^ 1015)" by (rule Math_pow2_finite) simp
  have bl: "bitlen (125 * 2 ^ 1018) \<le> 53 + 1018"
  proof -
    have "bitlen (125 * 2 ^ 1018) = bitlen 125 + 1018" by (rule bitlen_shift) simp
    moreover have "bitlen 125 \<le> 53" by (rule bitlen_le) simp
    ultimately show ?thesis by simp
  qed
  have "(2::nat) ^ (bitlen (125 * 2 ^ 1018) - 53) dvd 2 ^ 1018"
    by (rule le_imp_power_dvd) (use bl in simp)
  then have "2 ^ (bitlen (125 * 2 ^ 1018) - 53) dvd (125::nat) * 2 ^ 1018" by (rule dvd_mult)
  then have r: "round53 (125 * 2 ^ 1018) = 125 * 2 ^ 1018" by (rule round53_exact)
  have "(2::nat) ^ 1024 = 2 ^ 6 * 2 ^ 1018" by (simp only: power_add [symmetric]) simp
  also have "\<dots> \<le> 125 * 2 ^ 1018" by (rule mult_right_mono) simp_all
  finally have big: "overflow_threshold \<le> 125 * 2 ^ 1018" unfolding overflow_threshold_def .
  have split: "(1000::int) * 2 ^ 1015 = 125 * 2 ^ 1018"
  proof -
    have "(2::int) ^ 1018 = 2 ^ 3 * 2 ^ 1015" by (simp only: power_add [symmetric]) simp
    then show ?thesis by simp
  qed
  have "nat \<bar>125 * 2 ^ 1018 :: int\<bar> = 125 * 2 ^ 1018"
    by (simp only: abs_mult nat_mult_distrib nat_power_eq) simp
  then have "to_double (125 * 2 ^ 1018) = PosInfinity"
    using r big by (simp only: to_double_def Let_def) simp
  then show ?thesis by (simp only: calculateRetryDelay_def p option.case js_times.simps split)
qed

text \<open>
  C9, as stated, fails where the product overflows: with the default base of 1000 and
  \<open>n = 1015\<close> the delay is \<open>Infinity\<close>, not \<open>1000 * 2^1015\<close>.
\<close>

theorem calculateRetryDelay_overflow_counterexample:
  "calculateRetryDelay 1015 None = PosInfinity
   \<and> calculateRetryDelay 1015 None \<noteq> Finite (1000 * 2 ^ 1015)"
  by (simp only: delay_overflow) simp

text \<open>
  C9, amended. For every natural \<open>n\<close> below 1024 and every base \<open>b\<close> that is an integer
  double with \<open>|b| * 2^n\<close> below \<open>2^1024\<close>, \<open>calculateRetryDelay(n, b)\<close> is \<open>b * 2^n\<close>.
  With the default base of 1000 this is so for every \<open>n\<close> up to 1014; the delays for 0,
  1 and 3 retries are 1000, 2000 and 8000 milliseconds.
\<close>

theorem calculateRetryDelay_exponential:
  "(representable b \<and> n < 1024 \<and> nat \<bar>b\<bar> * 2 ^ n < overflow_threshold \<longrightarrow>
      calculateRetryDelay n (Some (Finite b)) = Finite (b * 2 ^ n))
   \<and> (m \<le> 1014 \<longrightarrow> calculateRetryDelay m None = Finite (1000 * 2 ^ m))
   \<and> calculateRetryDelay 0 None = Finite 1000
   \<and> calculateRetryDelay 1 None = Finite 2000
   \<and> calculateRetryDelay 3 None = Finite 8000"
proof (intro conjI impI)
  assume "representable b \<and> n < 1024 \<and> nat \<bar>b\<bar> * 2 ^ n < overflow_threshold"
  then show "calculateRetryDelay n (Some (Finite b)) = Finite (b * 2 ^ n)"
    by (intro delay_exact) simp_all
next
  assume "m \<le> 1014"
  then show "calculateRetryDelay m None = Finite (1000 * 2 ^ m)" by (rule delay_default)
next
  show "calculateRetryDelay 0 None = Finite 1000" using delay_default [of 0] by simp
  show "calculateRetryDelay 1 None = Finite 2000" using delay_default [of 1] by simp
  show "calculateRetryDelay 3 None = Finite 8000" using delay_default [of 3] by simp
qed

lemma sample_base:
  "representable 250" "nat \<bar>250::int\<bar> * 2 ^ 2 < overflow_threshold"
proof -
  show "representable 250" by (rule representable_small) simp
  have "nat \<bar>250::int\<bar> * 2 ^ 2 < 2 ^ 10" by simp
  also have "\<dots> < overflow_threshold" by (rule pow2_below_threshold) simp
  finally show "nat \<bar>250::int\<bar> * 2 ^ 2 < overflow_threshold" .
qed

theorem calculateRetryDelay_exponential_witness:
  "(representable 250 \<and> (2::nat) < 1024 \<and> nat \<bar>250::int\<bar> * 2 ^ 2 < overflow_threshold)
   \<and> calculateRetryDelay 2 (Some (Finite 250)) = Finite 1000
   \<and> (10::nat) \<le> 1014
   \<and> calculateRetryDelay 10 None = Finite 1024000"
  using calculateRetryDelay_exponential [where b = 250 and n = 2 and m = 10] sample_base
  by simp

section \<open>The reporter on unknown and on known jobs\<close>

lemma one_job_other: "one_job ''job-2'' = None"
  by (simp add: one_job_def reporter_createJob_def addProgress_def)

text \<open>
  C10. Every reporter operation called with an identifier that is not in the job map
  returns its neutral answer and leaves the map as it is.
\<close>

theorem unknown_job_is_noop:
  assumes "jobs ident = None"
  shows "getJob jobs ident = None
       \<and> getJobSummary getTime jobs ident = None
       \<and> getJobLogs jobs ident = []
       \<and> getJobProgress jobs ident = []
       \<and> getProgressPercentage jobs ident = 0
       \<and> exportJobLogs toISOString jobs ident = []
       \<and> updateJobStatus now ident st jobs = jobs
       \<and> addProgress now ident code msg pct dat jobs = jobs
       \<and> addLog ident entry jobs = jobs
       \<and> setJobResult now ident res jobs = jobs
       \<and> reporter_cancelJob now ident jobs = jobs"
  using assms
  by (simp add: getJob_def getJobSummary_def getJobLogs_def getJobProgress_def
      getProgressPercentage_def exportJobLogs_def updateJobStatus_def addProgress_def
      addLog_def setJobResult_def reporter_cancelJob_def)

theorem unknown_job_is_noop_witness:
  "one_job ''job-2'' = None
   \<and> getJob one_job ''job-2'' = None
   \<and> getJobSummary (\<lambda>t. 0) one_job ''job-2'' = None
   \<and> getJobLogs one_job ''job-2'' = []
   \<and> getJobProgress one_job ''job-2'' = []
   \<and> getProgressPercentage one_job ''job-2'' = 0
   \<and> exportJobLogs (\<lambda>t. t) one_job ''job-2'' = []
   \<and> updateJobStatus ''t'' ''job-2'' FAILED one_job = one_job
   \<and> addProgress ''t'' ''job-2'' JOB_FAILED ''Job failed'' None None one_job = one_job
   \<and> addLog ''job-2'' \<lparr> le_timestamp = ''t'', le_level = ERROR, le_code = None,
        le_message = ''boom'', le_data = None, le_duration = None \<rparr> one_job = one_job
   \<and> setJobResult ''t'' ''job-2'' \<lparr> rr_success = True, rr_url = None, rr_version = None,
        rr_errors = [], rr_warnings = [] \<rparr> one_job = one_job
   \<and> reporter_cancelJob ''t'' ''job-2'' one_job = one_job"
  using unknown_job_is_noop [where jobs = one_job and ident = "''job-2''", OF one_job_other]
    one_job_other by simp

text \<open>
  On a job the reporter knows, \<open>setJobResult\<close> stores the result, sets the status the
  result stands for and appends the one terminal event of that status, whatever the
  status of the job was; \<open>cancelJob\<close> does its part only for a job that is not terminal.
\<close>

lemma setJobResult_present:
  assumes "jobs ident = Some job"
  shows "\<exists>job'. setJobResult now ident res jobs ident = Some job'
           \<and> pj_result job' = Some res
           \<and> pj_status job' = (if rr_success res then SUCCEEDED else FAILED)
           \<and> map jp_code (pj_progress job')
               = map jp_code (pj_progress job) @ [if rr_success res then JOB_COMPLETED else JOB_FAILED]
           \<and> code_of_status (pj_status job') = Some (jp_code (last (pj_progress job')))"
  using assms
  by (simp add: setJobResult_def updateJobStatus_def addProgress_def Let_def)

lemma reporter_cancelJob_present:
  assumes "jobs ident = Some job"
      and "pj_status job = RUNNING \<or> pj_status job = WAITING \<or> pj_status job = QUEUED"
  shows "\<exists>job'. reporter_cancelJob now ident jobs ident = Some job'
           \<and> pj_status job' = CANCELLED
           \<and> map jp_code (pj_progress job')
               = map jp_code (pj_progress job) @ [JOB_CANCELLED]
           \<and> code_of_status (pj_status job') = Some (jp_code (last (pj_progress job')))"
  using assms
  by (auto simp add: reporter_cancelJob_def updateJobStatus_def addProgress_def Let_def)

lemma reporter_cancelJob_terminal:
  assumes "jobs ident = Some job"
      and "pj_status job = SUCCEEDED \<or> pj_status job = FAILED \<or> pj_status job = CANCELLED"
  shows "reporter_cancelJob now ident jobs = jobs"
  using assms by (auto simp add: reporter_cancelJob_def)

text \<open>
  C4. A result is reported for a job, which makes it \<open>SUCCEEDED\<close>; a second result
  is then reported for the same job. The second call replaces the stored result, turns
  the status to \<open>FAILED\<close> and appends a second terminal event.
\<close>

theorem setJobResult_overwrites_terminal_job:
  "map_option pj_status (reported_once ''job-1'') = Some SUCCEEDED
   \<and> map_option pj_result (reported_once ''job-1'') = Some (Some first_result)
   \<and> map_option terminal_events (reported_once ''job-1'') = Some [JOB_COMPLETED]
   \<and> map_option pj_status (reported_twice ''job-1'') = Some FAILED
   \<and> map_option pj_result (reported_twice ''job-1'') = Some (Some second_result)
   \<and> map_option terminal_events (reported_twice ''job-1'') = Some [JOB_COMPLETED, JOB_FAILED]"
  by (simp add: reported_twice_def reported_once_def one_job_def reporter_createJob_def
      setJobResult_def updateJobStatus_def addProgress_def terminal_events_def terminal_code_def
      first_result_def second_result_def Let_def truthy_def)

section \<open>The validator\<close>

text \<open>
  The composite verdict is the conjunction of the six verdicts. The completeness check
  and the staged-rollout check never return an invalid verdict: they push their
  findings and leave \<open>valid\<close> as initialised.
\<close>

lemma preflight_valid_iff:
  "pf_valid (runPreflightValidations env metadata dryRun) \<longleftrightarrow>
     vr_valid (res_schema (pf_results (runPreflightValidations env metadata dryRun)))
   \<and> vr_valid (res_completeness (pf_results (runPreflightValidations env metadata dryRun)))
   \<and> vr_valid (res_iosVersion (pf_results (runPreflightValidations env metadata dryRun)))
   \<and> vr_valid (res_androidVersion (pf_results (runPreflightValidations env metadata dryRun)))
   \<and> vr_valid (res_exportCompliance (pf_results (runPreflightValidations env metadata dryRun)))
   \<and> vr_valid (res_stagedRollout (pf_results (runPreflightValidations env metadata dryRun)))"
  by (simp add: runPreflightValidations_def Let_def)

lemma completeness_never_invalid: "vr_valid (validateMetadataCompleteness metadata)"
  by (simp add: validateMetadataCompleteness_def Let_def)

lemma stagedRollout_never_invalid: "vr_valid (validateStagedRollout track userFraction)"
  by (simp add: validateStagedRollout_def)

text \<open>
  C3. Two documents that pass the schema: one asks for a production rollout to a
  fraction of 0, the other declares no collected data. The staged-rollout check and the
  completeness check each record an error, and the composite verdict is \<open>valid\<close> for
  both documents.
\<close>

theorem preflight_passes_with_category_errors:
  "pf_valid (runPreflightValidations quiet_env rollout_zero False)
   \<and> map vi_field (vr_errors (res_stagedRollout
         (pf_results (runPreflightValidations quiet_env rollout_zero False))))
       = [''android.userFraction'']
   \<and> pf_valid (runPreflightValidations quiet_env no_collected_data False)
   \<and> map vi_field (vr_errors (res_completeness
         (pf_results (runPreflightValidations quiet_env no_collected_data False))))
       = [''android.dataSafety'']"
  by (simp add: runPreflightValidations_def Let_def quiet_env_def rollout_zero_def
      no_collected_data_def validateStoreMetadata_def validateMetadataCompleteness_def
      validateIOSVersioning_def validateAndroidVersioning_def validateExportCompliance_def
      validateStagedRollout_def push_if_def issue_def truthy_def str_length_def
      live_process_def asc_lookup_def AppStoreConnectClient_getLastVersion_def
      AppStoreConnectClient_getLastBuildNumber_def PlayDeveloperClient_getLastVersionCode_def)

text \<open>
  On a track other than production a fraction in \<open>(0, 1]\<close> gives one warning for
  \<open>android.userFraction\<close> and no error.
\<close>

lemma stagedRollout_other_track_warns:
  assumes "track \<noteq> ''production''" and "0 < userFraction" and "userFraction \<le> 1"
  shows "vr_errors (validateStagedRollout track userFraction) = []
       \<and> map vw_field (vr_warnings (validateStagedRollout track userFraction))
           = [''android.userFraction'']"
  using assms by (simp add: validateStagedRollout_def push_if_def)

text \<open>
  C6. On the production track the fractions 0 and 3/2 each give an entry of severity
  \<open>error\<close>, and the result is still \<open>valid\<close>.
\<close>

theorem stagedRollout_production_not_rejected:
  "vr_valid (validateStagedRollout ''production'' 0)
   \<and> map vi_severity (vr_errors (validateStagedRollout ''production'' 0)) = [Sev_error]
   \<and> vr_valid (validateStagedRollout ''production'' (3 / 2))
   \<and> map vi_severity (vr_errors (validateStagedRollout ''production'' (3 / 2))) = [Sev_error]"
  by (simp add: validateStagedRollout_def push_if_def issue_def)


lemma ios_version_check:
  assumes "version \<noteq> []" and "lastBuild \<noteq> []"
    and "parseInt lastBuild = Finite m" and "\<bar>m + 1\<bar> < 2 ^ 53"
    and "js_le (parseInt buildNumber) (Finite m)"
  shows "\<not> vr_valid (validateIOSVersioning redactSecrets toNumber printLarge
            \<lparr> asc_lastVersion = Inr (Some version), asc_lastBuildNumber = Inr (Some lastBuild) \<rparr>
            bundleId version buildNumber dryRun)
       \<and> vr_suggestedBuildNumber (validateIOSVersioning redactSecrets toNumber printLarge
            \<lparr> asc_lastVersion = Inr (Some version), asc_lastBuildNumber = Inr (Some lastBuild) \<rparr>
            bundleId version buildNumber dryRun)
           = Some (String_int (m + 1))"
proof -
  have "to_double (m + 1) = Finite (m + 1)"
    using assms(4) by (simp add: to_double_representable representable_small)
  then show ?thesis
    using assms
    by (simp add: validateIOSVersioning_def Let_def truthy_def show_nullable_def
        String_number_def)
qed

text \<open>
  Outside these bounds the validators would answer otherwise: a last version code of 0
  is falsy and nothing is compared, and at \<open>2^53\<close> the sum \<open>lastVersionCode + 1\<close> rounds
  back to \<open>lastVersionCode\<close>. The store clients give neither answer.
\<close>

lemma android_zero_last_code_not_compared:
  "vr_valid (validateAndroidVersioning redactSecrets printLarge (Inr (Some (Finite 0)))
       packageName (Finite 0) dryRun)
   \<and> vr_suggestedVersionCode (validateAndroidVersioning redactSecrets printLarge
         (Inr (Some (Finite 0))) packageName (Finite 0) dryRun) = None"
  by (simp add: validateAndroidVersioning_def truthy_number_def)

lemma android_suggestion_rounds:
  "vr_suggestedVersionCode (validateAndroidVersioning redactSecrets printLarge
       (Inr (Some (Finite 9007199254740992))) packageName (Finite 1) dryRun)
     = Some (Finite 9007199254740992)"
  by (simp add: validateAndroidVersioning_def truthy_number_def to_double_beyond_53
      del: js_add.simps)

lemma store_clients_answers:
  "PlayDeveloperClient_getLastVersionCode ce packageName
     \<in> {Inr (Some (Finite 1)), Inr None, Inl ''Google Play credentials not configured''}"
  "AppStoreConnectClient_getLastVersion ce bundleId
     \<in> {Inr (Some ''1.0.0''), Inr None, Inl ''App Store Connect credentials not configured''}"
  "AppStoreConnectClient_getLastBuildNumber ce bundleId
     \<in> {Inr (Some ''1''), Inr None, Inl ''App Store Connect credentials not configured''}"
  by (simp_all add: PlayDeveloperClient_getLastVersionCode_def
      AppStoreConnectClient_getLastVersion_def AppStoreConnectClient_getLastBuildNumber_def)







section \<open>The worker keeps every retry count within its budget\<close>

text \<open>Every job of the factory starts within its budget.\<close>

lemma createJob_admissible: "admissible (Alloc (createJob uuid now ty pl dat options))"
  by (simp add: createJob_def)

lemma evolves_refl: "evolves job job"
  by (simp add: evolves_def)

lemma evolves_trans: "evolves a b \<Longrightarrow> evolves b c \<Longrightarrow> evolves a c"
  by (auto simp: evolves_def)

lemma same_objects_refl: "same_objects s s"
  by (simp add: same_objects_def evolves_refl)

lemma same_objects_trans:
  assumes "same_objects a b" and "same_objects b c"
  shows "same_objects a c"
  unfolding same_objects_def
proof (intro conjI allI impI)
  show "ws_next c = ws_next a" using assms by (simp add: same_objects_def)
next
  fix r assume "ws_heap a r = None"
  then have "ws_heap b r = None" using assms(1) by (simp add: same_objects_def)
  then show "ws_heap c r = None" using assms(2) by (simp add: same_objects_def)
next
  fix r job assume "ws_heap a r = Some job"
  then obtain jb where b: "ws_heap b r = Some jb" "evolves job jb"
    using assms(1) unfolding same_objects_def by blast
  then obtain jc where c: "ws_heap c r = Some jc" "evolves jb jc"
    using assms(2) unfolding same_objects_def by blast
  with b show "\<exists>job'. ws_heap c r = Some job' \<and> evolves job job'"
    by (blast intro: evolves_trans)
qed

lemma same_objects_fields:
  "ws_heap s' = ws_heap s \<Longrightarrow> ws_next s' = ws_next s \<Longrightarrow> same_objects s s'"
  by (simp add: same_objects_def evolves_refl)

lemma same_objects_set_job:
  "ws_heap s r = Some job \<Longrightarrow> evolves job job' \<Longrightarrow> same_objects s (set_job r job' s)"
  by (auto simp: same_objects_def set_job_def evolves_refl)

lemma heap_set_job [simp]: "ws_heap (set_job r job s) = (ws_heap s)(r \<mapsto> job)"
  by (simp add: set_job_def)

lemma next_set_job [simp]: "ws_next (set_job r job s) = ws_next s"
  by (simp add: set_job_def)

lemma next_abort [simp]: "ws_next (abort c s) = ws_next s"
  by (simp add: abort_def)

lemma heap_abort [simp]: "ws_heap (abort c s) = ws_heap s"
  by (simp add: abort_def)

lemma same_objects_record: "same_objects s (processJob_record now r result s)"
proof (cases "ws_heap s r")
  case None
  then show ?thesis by (simp add: processJob_record_def same_objects_refl)
next
  case (Some job)
  let ?ok = "job\<lparr>jd_status := SUCCEEDED, jd_completedAt := Some now, jd_result := jr_data result\<rparr>"
  let ?ko = "job\<lparr>jd_status := FAILED, jd_completedAt := Some now, jd_error := jr_error result\<rparr>"
  have 1: "same_objects s (set_job r ?ok s)" "same_objects s (set_job r ?ko s)"
    using Some by (simp_all add: same_objects_set_job evolves_def)
  have 2: "same_objects (set_job r j s) (processJob_record now r result s)"
    if "j = (if jr_success result then ?ok else ?ko)" for j
    using Some that by (intro same_objects_fields) (simp_all add: processJob_record_def Let_def)
  show ?thesis
    using 1 2 [OF refl] by (cases "jr_success result") (auto intro: same_objects_trans)
qed

lemma settle_never_throws: "fst (processJob_settle now r c out s) = None"
  by (simp add: processJob_settle_def split: outcome.splits option.splits)

lemma same_objects_processJob_settle: "same_objects s (snd (processJob_settle now r c out s))"
  by (auto simp: processJob_settle_def same_objects_record same_objects_refl evolves_def
      intro!: same_objects_set_job split: outcome.splits option.splits)

lemma same_objects_catch: "same_objects s (processNextJob_catch now r msg s)"
proof (cases "ws_heap s r")
  case None
  then show ?thesis by (simp add: processNextJob_catch_def same_objects_refl)
next
  case (Some job)
  show ?thesis
  proof (cases "shouldRetryJob job")
    case True
    let ?j = "job\<lparr>jd_retryCount := jd_retryCount job + 1\<rparr>"
    have "evolves job ?j" using True by (simp add: evolves_def shouldRetryJob_def)
    then have "same_objects s (set_job r ?j s)" using Some by (rule same_objects_set_job [rotated])
    moreover have "same_objects (set_job r ?j s) (processNextJob_catch now r msg s)"
      using Some True by (intro same_objects_fields) (simp_all add: processNextJob_catch_def Let_def)
    ultimately show ?thesis by (rule same_objects_trans)
  next
    case False
    let ?j = "job\<lparr>jd_status := FAILED\<rparr>"
    have "evolves job ?j" by (simp add: evolves_def)
    then have "same_objects s (set_job r ?j s)" using Some by (rule same_objects_set_job [rotated])
    moreover have "same_objects (set_job r ?j s) (processNextJob_catch now r msg s)"
      using Some False by (intro same_objects_fields) (simp_all add: processNextJob_catch_def)
    ultimately show ?thesis by (rule same_objects_trans)
  qed
qed

lemma same_objects_processNextJob_settle:
  "same_objects s (processNextJob_settle now r c out s)"
proof -
  obtain s1 where s1: "processJob_settle now r c out s = (None, s1)"
    using settle_never_throws [of now r c out s] by (cases "processJob_settle now r c out s") auto
  have a: "same_objects s s1" using same_objects_processJob_settle [of s now r c out] s1 by simp
  have "same_objects s1 (processNextJob_settle now r c out s)"
    using s1 by (intro same_objects_fields) (simp_all add: processNextJob_settle_def split: option.splits)
  with a show ?thesis by (rule same_objects_trans)
qed

lemma same_objects_processNextJob: "same_objects s (processNextJob now s)"
proof (cases "\<not> ws_processing s \<or> ws_queue s = []")
  case True
  then show ?thesis by (auto simp: processNextJob_def same_objects_refl)
next
  case False
  then obtain r rest where q: "ws_queue s = r # rest" by (cases "ws_queue s") auto
  show ?thesis
  proof (cases "ws_heap s r")
    case None
    then show ?thesis using False q
      by (auto simp: processNextJob_def intro!: same_objects_fields)
  next
    case (Some job)
    define c where "c = length (ws_controllers s)"
    define s1 where "s1 = s\<lparr>ws_queue := rest, ws_controllers := ws_controllers s @ [False],
        ws_activeJobs := Map_set (ws_activeJobs s) (jd_id job) c\<rparr>"
    have a: "same_objects s s1" by (rule same_objects_fields) (simp_all add: s1_def)
    have h1: "ws_heap s1 r = Some job" using Some by (simp add: s1_def)
    have na: "\<not> aborted c s1" by (simp add: aborted_def s1_def c_def)
    define s2 where "s2 = (set_job r (job\<lparr>jd_status := RUNNING, jd_startedAt := Some now\<rparr>) s1)
        \<lparr>ws_reporter := updateJobStatus now (jd_id job) RUNNING (ws_reporter s1)\<rparr>"
    have "same_objects s1 (set_job r (job\<lparr>jd_status := RUNNING, jd_startedAt := Some now\<rparr>) s1)"
      using h1 by (rule same_objects_set_job) (simp add: evolves_def)
    moreover have "same_objects (set_job r (job\<lparr>jd_status := RUNNING, jd_startedAt := Some now\<rparr>) s1) s2"
      by (rule same_objects_fields) (simp_all add: s2_def)
    ultimately have b: "same_objects s1 s2" by (rule same_objects_trans)
    have eq: "processNextJob now s =
        (if dispatched (jd_type job) then s2\<lparr>ws_suspended := ws_suspended s2 @ [(r, c)]\<rparr>
         else processNextJob_settle now r c
                (Threw (''Unknown job type: '' @ JobType_value (jd_type job))) s2)"
      using False q Some na
      by (simp add: processNextJob_def Let_def s1_def [symmetric] c_def [symmetric] s2_def [symmetric])
    have "same_objects s2 (processNextJob now s)"
      unfolding eq
      by (auto intro: same_objects_fields same_objects_processNextJob_settle)
    with a b show ?thesis by (blast intro: same_objects_trans)
  qed
qed


lemma same_objects_retry_fire: "same_objects s (retry_fire r s)"
proof (cases "ws_heap s r")
  case None
  then show ?thesis by (simp add: retry_fire_def same_objects_refl)
next
  case (Some job)
  have "same_objects s (set_job r (job\<lparr>jd_status := QUEUED\<rparr>) s)"
    using Some by (rule same_objects_set_job) (simp add: evolves_def)
  moreover have "same_objects (set_job r (job\<lparr>jd_status := QUEUED\<rparr>) s) (retry_fire r s)"
    using Some by (intro same_objects_fields) (simp_all add: retry_fire_def Let_def)
  ultimately show ?thesis by (rule same_objects_trans)
qed

lemma same_objects_cancelJob: "same_objects s (worker_cancelJob now jobId s)"
  by (rule same_objects_fields)
     (simp_all add: worker_cancelJob_def Let_def split: option.splits)

lemma timers_abort [simp]: "ws_timers (abort c s) = ws_timers s"
  by (simp add: abort_def)

lemma stop_fold_heap:
  "ws_heap (foldl (\<lambda>st kv. (abort (snd kv) st)
              \<lparr>ws_reporter := reporter_cancelJob now (fst kv) (ws_reporter st)\<rparr>) s xs) = ws_heap s
   \<and> ws_next (foldl (\<lambda>st kv. (abort (snd kv) st)
              \<lparr>ws_reporter := reporter_cancelJob now (fst kv) (ws_reporter st)\<rparr>) s xs) = ws_next s
   \<and> ws_timers (foldl (\<lambda>st kv. (abort (snd kv) st)
              \<lparr>ws_reporter := reporter_cancelJob now (fst kv) (ws_reporter st)\<rparr>) s xs) = ws_timers s"
  by (induction xs arbitrary: s) simp_all

lemma same_objects_stop: "same_objects s (worker_stop now s)"
  by (rule same_objects_fields) (simp_all add: worker_stop_def Let_def stop_fold_heap)

lemma same_objects_submitJob: "same_objects s (worker_submitJob now r s)"
  by (rule same_objects_fields) (simp_all add: worker_submitJob_def split: option.splits)

lemma same_objects_start: "same_objects s (worker_start s)"
  by (rule same_objects_fields) (simp_all add: worker_start_def)

lemma same_objects_step:
  assumes "\<forall>job. ev \<noteq> Alloc job"
  shows "same_objects s (worker_step now ev s)"
proof (cases ev)
  case (Alloc job)
  with assms show ?thesis by simp
next
  case Start
  then show ?thesis by (simp add: same_objects_start)
next
  case Stop
  then show ?thesis by (simp add: same_objects_stop)
next
  case (Submit r)
  then show ?thesis by (simp add: same_objects_submitJob)
next
  case (Cancel jobId)
  then show ?thesis by (simp add: same_objects_cancelJob)
next
  case Tick
  then show ?thesis by (simp add: same_objects_processNextJob same_objects_refl)
next
  case (Progress k code message percentage)
  then show ?thesis
    by (auto intro!: same_objects_fields simp: same_objects_refl split: option.splits)
next
  case (Settle k out)
  have "same_objects s (s\<lparr>ws_suspended := remove_nth k (ws_suspended s)\<rparr>)"
    by (rule same_objects_fields) simp_all
  then show ?thesis using Settle
    by (auto simp: same_objects_refl intro: same_objects_trans same_objects_processNextJob_settle)
next
  case (Fire k)
  have "same_objects s (s\<lparr>ws_timers := remove_nth k (ws_timers s)\<rparr>)"
    by (rule same_objects_fields) simp_all
  then show ?thesis using Fire
    by (auto simp: same_objects_refl intro: same_objects_trans same_objects_retry_fire)
qed

lemma worker_inv_same_objects:
  assumes "worker_inv s" and "same_objects s s'"
  shows "worker_inv s'"
  unfolding worker_inv_def
proof (intro allI impI)
  fix r job' assume h: "ws_heap s' r = Some job'"
  then obtain job where j: "ws_heap s r = Some job"
    using assms(2) unfolding same_objects_def by (cases "ws_heap s r") auto
  then obtain job'' where "ws_heap s' r = Some job''" "evolves job job''"
    using assms(2) unfolding same_objects_def by blast
  with h have ev: "evolves job job'" by simp
  have "r < ws_next s" "jd_retryCount job \<le> jd_maxRetries job"
    using assms(1) j unfolding worker_inv_def by blast+
  moreover have "ws_next s' = ws_next s" using assms(2) by (simp add: same_objects_def)
  ultimately show "r < ws_next s' \<and> jd_retryCount job' \<le> jd_maxRetries job'"
    using ev by (simp add: evolves_def)
qed

lemma step_keeps_jobs:
  assumes "worker_inv s" and "admissible ev"
  shows "worker_inv (worker_step now ev s)
       \<and> (\<forall>r job. ws_heap s r = Some job \<longrightarrow>
             (\<exists>job'. ws_heap (worker_step now ev s) r = Some job' \<and> evolves job job'))"
proof (cases "\<exists>job. ev = Alloc job")
  case True
  then obtain new where ev: "ev = Alloc new" by blast
  have fresh: "ws_heap s (ws_next s) = None"
    using assms(1) unfolding worker_inv_def by (cases "ws_heap s (ws_next s)") auto
  have "worker_inv (worker_step now ev s)"
    using assms ev unfolding worker_inv_def by (auto simp: less_Suc_eq)
  moreover have "\<exists>job'. ws_heap (worker_step now ev s) r = Some job' \<and> evolves job job'"
    if "ws_heap s r = Some job" for r job
    using that fresh ev by (auto simp: evolves_refl)
  ultimately show ?thesis by blast
next
  case False
  then have so: "same_objects s (worker_step now ev s)" by (intro same_objects_step) blast
  then show ?thesis using worker_inv_same_objects [OF assms(1) so]
    unfolding same_objects_def by blast
qed

lemma run_keeps_jobs:
  assumes "worker_inv s" and "list_all (\<lambda>e. admissible (snd e)) evs"
  shows "worker_inv (worker_run evs s)
       \<and> (\<forall>r job. ws_heap s r = Some job \<longrightarrow>
             (\<exists>job'. ws_heap (worker_run evs s) r = Some job' \<and> evolves job job'))"
  using assms
proof (induction evs arbitrary: s)
  case Nil
  then show ?case by (simp add: evolves_refl)
next
  case (Cons e evs)
  obtain now ev where e: "e = (now, ev)" by (cases e)
  have adm: "admissible ev" "list_all (\<lambda>e. admissible (snd e)) evs"
    using Cons.prems(2) e by simp_all
  note st = step_keeps_jobs [OF Cons.prems(1) adm(1), of now]
  note ih = Cons.IH [OF conjunct1 [OF st] adm(2)]
  show ?case
  proof (intro conjI allI impI)
    show "worker_inv (worker_run (e # evs) s)" using ih e by simp
  next
    fix r job assume "ws_heap s r = Some job"
    then obtain j1 where 1: "ws_heap (worker_step now ev s) r = Some j1" "evolves job j1"
      using st by blast
    then obtain j2 where 2: "ws_heap (worker_run evs (worker_step now ev s)) r = Some j2"
        "evolves j1 j2"
      using ih by blast
    with 1 show "\<exists>job'. ws_heap (worker_run (e # evs) s) r = Some job' \<and> evolves job job'"
      using e by (auto intro: evolves_trans)
  qed
qed

lemma catch_exhausted:
  assumes "ws_heap s r = Some job" and "jd_retryCount job = jd_maxRetries job"
  shows "map_option jd_status (ws_heap (processNextJob_catch now r msg s) r) = Some FAILED
       \<and> map_option jd_retryCount (ws_heap (processNextJob_catch now r msg s) r)
           = Some (jd_maxRetries job)
       \<and> ws_timers (processNextJob_catch now r msg s) = ws_timers s
       \<and> ws_queue (processNextJob_catch now r msg s) = ws_queue s"
  using assms by (simp add: processNextJob_catch_def shouldRetryJob_def set_job_def)

lemma settle_failed:
  assumes "ws_heap s r = Some job" and "dispatch_failed c s out"
  shows "map_option jd_status (ws_heap (processNextJob_settle now r c out s) r) = Some FAILED
       \<and> map_option jd_retryCount (ws_heap (processNextJob_settle now r c out s) r)
           = Some (jd_retryCount job)
       \<and> ws_timers (processNextJob_settle now r c out s) = ws_timers s
       \<and> ws_queue (processNextJob_settle now r c out s) = ws_queue s"
  using assms
  by (cases out)
     (simp_all add: dispatch_failed_def processNextJob_settle_def processJob_settle_def
        processJob_record_def createJobErrorResult_def set_job_def Let_def)

text \<open>
  C5. Start from a worker state in which every job is within its retry budget, and let
  any sequence of events happen in which every newly created job is within its budget.
  Then every job of the start still exists at the end, its retry count has not
  decreased, its budget is unchanged and the count is within the budget; and the same
  holds for all jobs at the end. When the budget is exhausted
  (\<open>retryCount = maxRetries\<close>), the error handler of \<open>processNextJob\<close> and a failed
  dispatch both leave the job \<open>FAILED\<close> with its count unchanged, add no retry timer
  and do not enqueue the job.
\<close>

theorem retryCount_monotone_and_bounded:
  "(worker_inv s \<and> list_all (\<lambda>e. admissible (snd e)) evs \<longrightarrow>
      worker_inv (worker_run evs s)
      \<and> (\<forall>r job. ws_heap s r = Some job \<longrightarrow>
            (\<exists>job'. ws_heap (worker_run evs s) r = Some job'
               \<and> jd_retryCount job \<le> jd_retryCount job'
               \<and> jd_retryCount job' \<le> jd_maxRetries job'
               \<and> jd_maxRetries job' = jd_maxRetries job)))
   \<and> (ws_heap t r0 = Some job0 \<and> jd_retryCount job0 = jd_maxRetries job0 \<longrightarrow>
        map_option jd_status (ws_heap (processNextJob_catch now r0 msg t) r0) = Some FAILED
        \<and> map_option jd_retryCount (ws_heap (processNextJob_catch now r0 msg t) r0)
            = Some (jd_maxRetries job0)
        \<and> ws_timers (processNextJob_catch now r0 msg t) = ws_timers t
        \<and> ws_queue (processNextJob_catch now r0 msg t) = ws_queue t)
   \<and> (ws_heap t r0 = Some job0 \<and> jd_retryCount job0 = jd_maxRetries job0
        \<and> dispatch_failed c t out \<longrightarrow>
        map_option jd_status (ws_heap (processNextJob_settle now r0 c out t) r0) = Some FAILED
        \<and> map_option jd_retryCount (ws_heap (processNextJob_settle now r0 c out t) r0)
            = Some (jd_maxRetries job0)
        \<and> ws_timers (processNextJob_settle now r0 c out t) = ws_timers t
        \<and> ws_queue (processNextJob_settle now r0 c out t) = ws_queue t)"
proof (intro conjI impI)
  assume a: "worker_inv s \<and> list_all (\<lambda>e. admissible (snd e)) evs"
  note run = run_keeps_jobs [OF conjunct1 [OF a] conjunct2 [OF a]]
  show "worker_inv (worker_run evs s)" using run by blast
  show "\<forall>r job. ws_heap s r = Some job \<longrightarrow>
          (\<exists>job'. ws_heap (worker_run evs s) r = Some job'
             \<and> jd_retryCount job \<le> jd_retryCount job'
             \<and> jd_retryCount job' \<le> jd_maxRetries job'
             \<and> jd_maxRetries job' = jd_maxRetries job)"
  proof (intro allI impI)
    fix r job assume h: "ws_heap s r = Some job"
    then obtain job' where j: "ws_heap (worker_run evs s) r = Some job'" "evolves job job'"
      using run by blast
    have "jd_retryCount job \<le> jd_maxRetries job"
      using a h unfolding worker_inv_def by blast
    with j show "\<exists>job'. ws_heap (worker_run evs s) r = Some job'
             \<and> jd_retryCount job \<le> jd_retryCount job'
             \<and> jd_retryCount job' \<le> jd_maxRetries job'
             \<and> jd_maxRetries job' = jd_maxRetries job"
      by (auto simp: evolves_def)
  qed
next
  assume b: "ws_heap t r0 = Some job0 \<and> jd_retryCount job0 = jd_maxRetries job0"
  note c = catch_exhausted [OF conjunct1 [OF b] conjunct2 [OF b], of now msg]
  show "map_option jd_status (ws_heap (processNextJob_catch now r0 msg t) r0) = Some FAILED"
    using c by blast
  show "map_option jd_retryCount (ws_heap (processNextJob_catch now r0 msg t) r0)
          = Some (jd_maxRetries job0)"
    using c by blast
  show "ws_timers (processNextJob_catch now r0 msg t) = ws_timers t" using c by blast
  show "ws_queue (processNextJob_catch now r0 msg t) = ws_queue t" using c by blast
next
  assume b: "ws_heap t r0 = Some job0 \<and> jd_retryCount job0 = jd_maxRetries job0
             \<and> dispatch_failed c t out"
  then have h: "ws_heap t r0 = Some job0" and d: "dispatch_failed c t out"
    and e: "jd_retryCount job0 = jd_maxRetries job0" by simp_all
  note f = settle_failed [OF h d, of now]
  show "map_option jd_status (ws_heap (processNextJob_settle now r0 c out t) r0) = Some FAILED"
    using f by blast
  show "map_option jd_retryCount (ws_heap (processNextJob_settle now r0 c out t) r0)
          = Some (jd_maxRetries job0)"
    using f e by simp
  show "ws_timers (processNextJob_settle now r0 c out t) = ws_timers t" using f by blast
  show "ws_queue (processNextJob_settle now r0 c out t) = ws_queue t" using f by blast
qed

lemmas worker_defs =
  worker_init_def worker_start_def worker_stop_def worker_submitJob_def worker_cancelJob_def
  processNextJob_def processNextJob_settle_def processNextJob_catch_def processJob_settle_def
  processJob_record_def retry_fire_def set_job_def abort_def aborted_def dispatched_def
  enqueue_def Array_sort_def by_priority_def priority_of_def remove_nth_def
  Map_get_def Map_delete_def incrementJobCounter_def getJobCounter_def
  createJob_def createJobResult_def createJobErrorResult_def shouldRetryJob_def
  calculateRetryDelay_def NORMAL_def no_options_def

lemmas reporter_defs =
  reporter_createJob_def addProgress_def updateJobStatus_def setJobResult_def
  reporter_cancelJob_def truthy_def show_nullable_def opt_value_def
  terminal_events_def terminal_code_def

lemma one_object_inv: "worker_inv one_object"
  by (auto simp: worker_inv_def one_object_def worker_init_def android_job_def createJob_def
      no_options_def split: if_splits)

lemma one_object_job: "ws_heap one_object 0 = Some android_job"
  by (simp add: one_object_def worker_init_def)

lemma one_attempt_admissible: "list_all (\<lambda>e. admissible (snd e)) one_attempt"
  by (simp add: one_attempt_def)

lemma spent_state_job:
  "ws_heap spent_state 0 = Some spent_job" "jd_retryCount spent_job = jd_maxRetries spent_job"
  "dispatch_failed 0 spent_state (Threw ''disk full'')"
  by (simp_all add: spent_state_def spent_job_def set_job_def worker_init_def createJob_def
      no_options_def dispatch_failed_def aborted_def)

theorem retryCount_monotone_and_bounded_witness:
  "(worker_inv one_object \<and> list_all (\<lambda>e. admissible (snd e)) one_attempt)
   \<and> ws_heap one_object 0 = Some android_job
   \<and> worker_inv (worker_run one_attempt one_object)
   \<and> (\<exists>job'. ws_heap (worker_run one_attempt one_object) 0 = Some job'
         \<and> jd_retryCount android_job \<le> jd_retryCount job'
         \<and> jd_retryCount job' \<le> jd_maxRetries job'
         \<and> jd_maxRetries job' = jd_maxRetries android_job)
   \<and> (ws_heap spent_state 0 = Some spent_job \<and> jd_retryCount spent_job = jd_maxRetries spent_job
        \<and> dispatch_failed 0 spent_state (Threw ''disk full''))
   \<and> map_option jd_status (ws_heap (processNextJob_catch ''t'' 0 ''disk full'' spent_state) 0)
       = Some FAILED
   \<and> ws_timers (processNextJob_catch ''t'' 0 ''disk full'' spent_state) = ws_timers spent_state
   \<and> map_option jd_status
         (ws_heap (processNextJob_settle ''t'' 0 0 (Threw ''disk full'') spent_state) 0)
       = Some FAILED
   \<and> ws_timers (processNextJob_settle ''t'' 0 0 (Threw ''disk full'') spent_state)
       = ws_timers spent_state"
  using retryCount_monotone_and_bounded [where s = one_object and evs = one_attempt
      and t = spent_state and ?r0.0 = 0 and ?job0.0 = spent_job and now = "''t''"
      and msg = "''disk full''" and c = 0 and out = "Threw ''disk full''"]
    one_object_inv one_object_job one_attempt_admissible spent_state_job
  by simp

section \<open>A failed attempt is never retried\<close>

lemma settle_keeps_timers: "ws_timers (processNextJob_settle now r c out s) = ws_timers s"
  by (cases out)
     (simp_all add: processNextJob_settle_def processJob_settle_def processJob_record_def
        set_job_def Let_def split: option.splits)

lemma processNextJob_keeps_timers: "ws_timers (processNextJob now s) = ws_timers s"
  by (cases "ws_queue s")
     (simp_all add: processNextJob_def Let_def settle_keeps_timers set_job_def
        split: option.splits)

lemma step_keeps_no_timers:
  assumes "ws_timers s = []"
  shows "ws_timers (worker_step now ev s) = []"
  using assms
  by (cases ev)
     (simp_all add: worker_start_def worker_stop_def worker_submitJob_def worker_cancelJob_def
        processNextJob_keeps_timers settle_keeps_timers stop_fold_heap Let_def
        split: option.splits)

text \<open>
  No run of the worker ever has a retry pending: \<open>processJob\<close> turns every exception of
  a dispatch into a failed result, so the retry branch of \<open>processNextJob\<close> is not
  reached.
\<close>

lemma never_schedules_retry:
  "ws_timers s = [] \<Longrightarrow> ws_timers (worker_run evs s) = []"
proof (induction evs arbitrary: s)
  case Nil
  then show ?case by simp
next
  case (Cons e evs)
  obtain now ev where e: "e = (now, ev)" by (cases e)
  show ?case using Cons.IH [OF step_keeps_no_timers [OF Cons.prems, of now ev]] e by simp
qed

text \<open>
  C1. A job with no retry used and a budget of three is dispatched, and the dispatch
  throws a network error. The worker marks the job \<open>FAILED\<close>, reports \<open>JOB_FAILED\<close>,
  leaves the retry count at 0, schedules no retry and does not enqueue the job again.
\<close>

theorem failed_attempt_is_final:
  "jd_retryCount ios_job < jd_maxRetries ios_job
   \<and> map_option jd_status (ws_heap (worker_run failed_attempt worker_init) 0) = Some FAILED
   \<and> map_option jd_retryCount (ws_heap (worker_run failed_attempt worker_init) 0) = Some 0
   \<and> ws_queue (worker_run failed_attempt worker_init) = []
   \<and> ws_timers (worker_run failed_attempt worker_init) = []
   \<and> map_option pj_status (ws_reporter (worker_run failed_attempt worker_init) ''job-1'')
       = Some FAILED
   \<and> map_option terminal_events (ws_reporter (worker_run failed_attempt worker_init) ''job-1'')
       = Some [JOB_FAILED]"
  by (simp add: failed_attempt_def ios_job_def worker_defs reporter_defs Let_def)

section \<open>A cancelled job can still complete\<close>

text \<open>
  When the dispatch of a cancelled job throws, \<open>processJob\<close> looks at the abort signal
  and the job stays \<open>CANCELLED\<close> with its one terminal event.
\<close>

lemma cancelled_job_that_throws_stays_cancelled:
  "map_option pj_status (ws_reporter (worker_run cancelled_then_threw worker_init) ''job-2'')
       = Some CANCELLED
   \<and> map_option terminal_events
         (ws_reporter (worker_run cancelled_then_threw worker_init) ''job-2'')
       = Some [JOB_CANCELLED]
   \<and> map_option jd_status (ws_heap (worker_run cancelled_then_threw worker_init) 0)
       = Some CANCELLED"
  by (simp add: cancelled_then_threw_def validate_job_def worker_defs reporter_defs Let_def)


end
